theory Spec2Isabelle
  imports Complex_Main
begin

section \<open>Values shared by all entities\<close>

text \<open>
  Python floats are modelled as exact reals: the representation error of binary floating
  point is outside the model.  Python's \<^verbatim>\<open>round(x, 1)\<close> rounds to the nearest
  multiple of one tenth and resolves an exact tie to the even neighbour.
\<close>

definition round_half_even :: "real \<Rightarrow> int" where
  "round_half_even y =
     (let f = \<lfloor>y\<rfloor>; d = y - of_int f
      in if d < 1 / 2 then f
         else if 1 / 2 < d then f + 1
         else if even f then f else f + 1)"

definition py_round1 :: "real \<Rightarrow> real" where
  "py_round1 x = of_int (round_half_even (x * 10)) / 10"

text \<open>
  \<^verbatim>\<open>datetime.date\<close> and \<^verbatim>\<open>datetime.datetime\<close> (a subclass of date).  The
  clock is not part of the state: every function whose source calls
  \<^verbatim>\<open>datetime.now()\<close> takes the reading as its argument \<open>now\<close>.
\<close>

record date =
  year :: nat
  month :: nat
  day :: nat

record datetime = date +
  hour :: nat
  minute :: nat
  second :: nat
  microsecond :: nat

text \<open>
  Python compares dates as the triples (year, month, day); \<^verbatim>\<open>(a - b).days\<close> is the
  difference of the proleptic Gregorian ordinals.
\<close>

definition date_lt :: "date \<Rightarrow> date \<Rightarrow> bool" where
  "date_lt a b =
     (year a < year b \<or> (year a = year b \<and> (month a < month b \<or> (month a = month b \<and> day a < day b))))"

definition is_leap :: "nat \<Rightarrow> bool" where
  "is_leap y = (y mod 4 = 0 \<and> (y mod 100 \<noteq> 0 \<or> y mod 400 = 0))"

definition days_in_month :: "nat \<Rightarrow> nat \<Rightarrow> nat" where
  "days_in_month y m =
     (if m = 2 then (if is_leap y then 29 else 28)
      else if m \<in> set [4, 6, 9, 11] then 30 else 31)"

definition days_before_year :: "nat \<Rightarrow> int" where
  "days_before_year y =
     (let y1 = int y - 1 in y1 * 365 + y1 div 4 - y1 div 100 + y1 div 400)"

definition days_before_month :: "nat \<Rightarrow> nat \<Rightarrow> int" where
  "days_before_month y m = int (sum_list (map (days_in_month y) [1..<m]))"

definition toordinal :: "date \<Rightarrow> int" where
  "toordinal d = days_before_year (year d) + days_before_month (year d) (month d) + int (day d)"

definition days_between :: "date \<Rightarrow> date \<Rightarrow> int" where
  "days_between a b = toordinal a - toordinal b"

text \<open>\<^verbatim>\<open>min\<close> and \<^verbatim>\<open>max\<close> of a non-empty list keep the first extremal element.\<close>

fun min_from :: "date \<Rightarrow> date list \<Rightarrow> date" where
  "min_from m [] = m"
| "min_from m (x # xs) = min_from (if date_lt x m then x else m) xs"

fun max_from :: "date \<Rightarrow> date list \<Rightarrow> date" where
  "max_from m [] = m"
| "max_from m (x # xs) = max_from (if date_lt m x then x else m) xs"

section \<open>Notifications\<close>

text \<open>
  The literals of \<^verbatim>\<open>NotificationType\<close> and \<^verbatim>\<open>NotificationPriority\<close>
  (models/notification.py), as UTF-8.
\<close>

definition DEADLINE_APPROACHING :: string where
  "DEADLINE_APPROACHING = [CHR 0xE6, CHR 0x9C, CHR 0x9F, CHR 0xE9, CHR 0x99, CHR 0x90, CHR 0xE6, CHR 0x8E, CHR 0xA5,
                           CHR 0xE8, CHR 0xBF, CHR 0x91]"

definition HIGH :: string where
  "HIGH = [CHR 0xE9, CHR 0xAB, CHR 0x98]"

definition MEDIUM :: string where
  "MEDIUM = [CHR 0xE4, CHR 0xB8, CHR 0xAD]"

text \<open>
  \<^verbatim>\<open>Notification\<close>.  The free-form \<^verbatim>\<open>metadata\<close> dictionary plays no part in
  the manager's logic and is left out.
\<close>

record notification =
  id' :: string
  type' :: string
  entity_id :: string
  entity_type :: string
  entity_name :: string
  message :: string
  priority :: string
  created_at :: datetime
  read_at :: "datetime option"
  acknowledged_at :: "datetime option"
  dismissed_at :: "datetime option"

definition mark_as_read :: "datetime \<Rightarrow> notification \<Rightarrow> notification" where
  "mark_as_read now n = (if read_at n = None then n\<lparr>read_at := Some now\<rparr> else n)"

definition acknowledge :: "datetime \<Rightarrow> notification \<Rightarrow> notification" where
  "acknowledge now n =
     (if acknowledged_at n = None then mark_as_read now (n\<lparr>acknowledged_at := Some now\<rparr>) else n)"

definition dismiss :: "datetime \<Rightarrow> notification \<Rightarrow> notification" where
  "dismiss now n =
     (if dismissed_at n = None then mark_as_read now (n\<lparr>dismissed_at := Some now\<rparr>) else n)"

definition is_read :: "notification \<Rightarrow> bool" where
  "is_read n = (read_at n \<noteq> None)"

definition is_acknowledged :: "notification \<Rightarrow> bool" where
  "is_acknowledged n = (acknowledged_at n \<noteq> None)"

definition is_dismissed :: "notification \<Rightarrow> bool" where
  "is_dismissed n = (dismissed_at n \<noteq> None)"

definition is_active :: "notification \<Rightarrow> bool" where
  "is_active n = (\<not> is_acknowledged n \<and> \<not> is_dismissed n)"

text \<open>
  \<^verbatim>\<open>NotificationManager.notifications\<close> is a Python dictionary, iterated in insertion
  order: an association list.  Assigning to a key that is present replaces the value in
  place, assigning to a new key appends.
\<close>

type_synonym notifications = "(string \<times> notification) list"

fun dict_set :: "('k \<times> 'v) list \<Rightarrow> 'k \<Rightarrow> 'v \<Rightarrow> ('k \<times> 'v) list" where
  "dict_set [] k v = [(k, v)]"
| "dict_set ((k', v') # rest) k v =
     (if k' = k then (k, v) # rest else (k', v') # dict_set rest k v)"

definition dict_del :: "notifications \<Rightarrow> string \<Rightarrow> notifications" where
  "dict_del d k = filter (\<lambda>kv. fst kv \<noteq> k) d"

definition get_notification :: "notifications \<Rightarrow> string \<Rightarrow> notification option" where
  "get_notification d k = map_of d k"

text \<open>
  \<^verbatim>\<open>find_existing_notification\<close> returns the first notification, in iteration order,
  with the given entity id and type, whatever its state.
\<close>

definition find_existing_notification :: "notifications \<Rightarrow> string \<Rightarrow> string \<Rightarrow> notification option" where
  "find_existing_notification d e t =
     List.find (\<lambda>n. entity_id n = e \<and> type' n = t) (map snd d)"

definition add_notification :: "notifications \<Rightarrow> notification \<Rightarrow> bool \<times> notifications" where
  "add_notification d n =
     (case find_existing_notification d (entity_id n) (type' n) of
        None \<Rightarrow> (True, dict_set d (id' n) n)
      | Some existing \<Rightarrow>
          if is_active existing then (False, d)
          else (True, dict_set d (id' n) n))"

text \<open>
  The manager's methods that mark a stored notification mutate the stored object: the slot
  of its key is updated.
\<close>

definition NotificationManager_mark_as_read :: "datetime \<Rightarrow> notifications \<Rightarrow> string \<Rightarrow> bool \<times> notifications" where
  "NotificationManager_mark_as_read now d k =
     (case get_notification d k of
        None \<Rightarrow> (False, d)
      | Some n \<Rightarrow> (True, dict_set d k (mark_as_read now n)))"

definition NotificationManager_acknowledge :: "datetime \<Rightarrow> notifications \<Rightarrow> string \<Rightarrow> bool \<times> notifications" where
  "NotificationManager_acknowledge now d k =
     (case get_notification d k of
        None \<Rightarrow> (False, d)
      | Some n \<Rightarrow> (True, dict_set d k (acknowledge now n)))"

definition NotificationManager_dismiss :: "datetime \<Rightarrow> notifications \<Rightarrow> string \<Rightarrow> bool \<times> notifications" where
  "NotificationManager_dismiss now d k =
     (case get_notification d k of
        None \<Rightarrow> (False, d)
      | Some n \<Rightarrow> (True, dict_set d k (dismiss now n)))"

definition delete_notification :: "notifications \<Rightarrow> string \<Rightarrow> bool \<times> notifications" where
  "delete_notification d k =
     (if k \<in> fst ` set d then (True, dict_del d k) else (False, d))"

text \<open>
  The states of the manager reachable from the empty dictionary by the five operations.
\<close>

inductive reachable :: "notifications \<Rightarrow> bool" where
  empty: "reachable []"
| add: "reachable d \<Longrightarrow> reachable (snd (add_notification d n))"
| acknowledge: "reachable d \<Longrightarrow> reachable (snd (NotificationManager_acknowledge now d k))"
| dismiss: "reachable d \<Longrightarrow> reachable (snd (NotificationManager_dismiss now d k))"
| mark_as_read: "reachable d \<Longrightarrow> reachable (snd (NotificationManager_mark_as_read now d k))"
| delete: "reachable d \<Longrightarrow> reachable (snd (delete_notification d k))"

text \<open>
  At most one active notification for each pair of entity id and type: the pairs of the
  active notifications are pairwise different.
\<close>

definition active_pairs :: "notifications \<Rightarrow> (string \<times> string) list" where
  "active_pairs d = map (\<lambda>n. (entity_id n, type' n)) (filter is_active (map snd d))"

definition at_most_one_active :: "notifications \<Rightarrow> bool" where
  "at_most_one_active d = distinct (active_pairs d)"

section \<open>Entities\<close>

text \<open>
  The status literals of \<^verbatim>\<open>models/base.py\<close> are Python strings; each constant below
  is the UTF-8 encoding of the literal in the source.
\<close>

definition NOT_STARTED :: string where
  "NOT_STARTED = [CHR 0xE6, CHR 0x9C, CHR 0xAA, CHR 0xE7, CHR 0x9D, CHR 0x80, CHR 0xE6, CHR 0x89, CHR 0x8B]"

definition IN_PROGRESS :: string where
  "IN_PROGRESS = [CHR 0xE9, CHR 0x80, CHR 0xB2, CHR 0xE8, CHR 0xA1, CHR 0x8C, CHR 0xE4, CHR 0xB8, CHR 0xAD]"

definition COMPLETED :: string where
  "COMPLETED = [CHR 0xE5, CHR 0xAE, CHR 0x8C, CHR 0xE4, CHR 0xBA, CHR 0x86]"

definition CANNOT_HANDLE :: string where
  "CANNOT_HANDLE = [CHR 0xE5, CHR 0xAF, CHR 0xBE, CHR 0xE5, CHR 0xBF, CHR 0x9C, CHR 0xE4, CHR 0xB8, CHR 0x8D,
                    CHR 0xE8, CHR 0x83, CHR 0xBD]"

definition SUSPENDED :: string where
  "SUSPENDED = [CHR 0xE4, CHR 0xB8, CHR 0xAD, CHR 0xE6, CHR 0xAD, CHR 0xA2]"

definition ON_HOLD :: string where
  "ON_HOLD = [CHR 0xE4, CHR 0xBF, CHR 0x9D, CHR 0xE7, CHR 0x95, CHR 0x99]"

text \<open>\<^verbatim>\<open>StatusEnum.is_valid\<close> for the two subclasses: membership in the class's literals.\<close>

definition TaskStatus_is_valid :: "string \<Rightarrow> bool" where
  "TaskStatus_is_valid v = (v \<in> set [NOT_STARTED, IN_PROGRESS, COMPLETED, CANNOT_HANDLE])"

definition ProjectStatus_is_valid :: "string \<Rightarrow> bool" where
  "ProjectStatus_is_valid v = (v \<in> set [NOT_STARTED, IN_PROGRESS, COMPLETED, SUSPENDED, ON_HOLD])"

text \<open>\<^verbatim>\<open>str.strip()\<close> is only used for the test "non-blank"; whitespace is ASCII here.\<close>

definition is_space :: "char \<Rightarrow> bool" where
  "is_space c = (c \<in> set [CHR '' '', CHR 0x09, CHR 0x0A, CHR 0x0B, CHR 0x0C, CHR 0x0D])"

definition strip :: "string \<Rightarrow> string" where
  "strip s = rev (dropWhile is_space (rev (dropWhile is_space s)))"

text \<open>\<^verbatim>\<open>BaseEntity\<close>: the attributes every entity carries.\<close>

record base_entity =
  id' :: string
  name :: string
  description :: string
  created_at :: datetime
  updated_at :: datetime

text \<open>A manager's dictionary from entity id to entity.\<close>

type_synonym 'a store = "string \<rightharpoonup> 'a"

section \<open>Task\<close>

record StatusChange =
  change_id :: string
  old_status :: string
  new_status :: string
  changed_at :: datetime
  changed_by :: string
  comment :: string

record task = base_entity +
  status :: string
  status_history :: "StatusChange list"
  parent_process_id :: "string option"
  priority :: int
  estimated_hours :: "real option"
  actual_hours :: "real option"
  notes' :: string
  tags :: "string list"

text \<open>
  \<^verbatim>\<open>StatusChange.__init__\<close>: the id is the rendered clock reading, taken as the
  argument \<open>cid\<close>.
\<close>

definition StatusChange_init :: "string \<Rightarrow> datetime \<Rightarrow> string \<Rightarrow> string \<Rightarrow> string \<Rightarrow> StatusChange" where
  "StatusChange_init cid now old new by =
     \<lparr>change_id = cid, old_status = old, new_status = new, changed_at = now,
      changed_by = by, comment = ''''\<rparr>"

definition add_status_change ::
  "string \<Rightarrow> datetime \<Rightarrow> task \<Rightarrow> string \<Rightarrow> string \<Rightarrow> string \<Rightarrow> task" where
  "add_status_change cid now t old new by =
     t\<lparr>status_history := status_history t @ [StatusChange_init cid now old new by]\<rparr>"

text \<open>
  \<^verbatim>\<open>Task.set_status\<close>.  The comment is written into the entry just appended when it
  is non-empty.
\<close>

definition set_comment_last :: "string \<Rightarrow> StatusChange list \<Rightarrow> StatusChange list" where
  "set_comment_last c h = (if h = [] then h else butlast h @ [(last h)\<lparr>comment := c\<rparr>])"

definition task_set_status ::
  "string \<Rightarrow> datetime \<Rightarrow> task \<Rightarrow> string \<Rightarrow> string \<Rightarrow> string \<Rightarrow> bool \<times> task" where
  "task_set_status cid now t new by c =
     (if \<not> TaskStatus_is_valid new then (False, t)
      else if new = status t then (True, t)
      else
        (let old = status t;
             t1 = t\<lparr>status := new, updated_at := now\<rparr>;
             t2 = add_status_change cid now t1 old new by;
             t3 = (if c \<noteq> [] then t2\<lparr>status_history := set_comment_last c (status_history t2)\<rparr> else t2)
         in (True, t3)))"

definition is_completed :: "task \<Rightarrow> bool" where
  "is_completed t = (status t = COMPLETED)"

definition is_cannot_handle :: "task \<Rightarrow> bool" where
  "is_cannot_handle t = (status t = CANNOT_HANDLE)"

definition is_actionable :: "task \<Rightarrow> bool" where
  "is_actionable t = (\<not> is_cannot_handle t)"

definition get_completion_percentage :: "task \<Rightarrow> real" where
  "get_completion_percentage t =
     (if is_completed t then 100 else if is_cannot_handle t then 0 else 0)"

text \<open>\<^verbatim>\<open>TaskManager.get_task\<close>: \<^verbatim>\<open>dict.get\<close>.\<close>

definition get_task :: "task store \<Rightarrow> string \<Rightarrow> task option" where
  "get_task tm tid = tm tid"

section \<open>Process\<close>

record process = base_entity +
  assignee :: string
  parent_phase_id :: "string option"
  start_date :: "date option"
  end_date :: "date option"
  estimated_hours :: "real option"
  actual_hours :: "real option"
  progress :: real
  is_progress_manual :: bool
  tasks :: "string list"
  notes' :: string
  priority :: int

text \<open>\<^verbatim>\<open>Process.__init__\<close>; the fresh uuid is the argument \<open>uid\<close>.\<close>

definition Process_init :: "string \<Rightarrow> datetime \<Rightarrow> string \<Rightarrow> string \<Rightarrow> string \<Rightarrow> process" where
  "Process_init uid now nm descr asg =
     \<lparr>id' = uid, name = nm, description = descr, created_at = now, updated_at = now,
      assignee = asg, parent_phase_id = None, start_date = None, end_date = None,
      estimated_hours = None, actual_hours = None, progress = 0, is_progress_manual = True,
      tasks = [], notes' = '''', priority = 3\<rparr>"

definition set_progress :: "datetime \<Rightarrow> process \<Rightarrow> real \<Rightarrow> bool \<Rightarrow> bool \<times> process" where
  "set_progress now p v is_manual =
     (if 0 \<le> v \<and> v \<le> 100
      then (True, p\<lparr>progress := v, is_progress_manual := is_manual, updated_at := now\<rparr>)
      else (False, p))"

text \<open>
  The loop of \<^verbatim>\<open>calculate_progress_from_tasks\<close>: the accumulator is the pair
  (\<^verbatim>\<open>actionable_tasks\<close>, \<^verbatim>\<open>completed_tasks\<close>).
\<close>

fun tasks_loop :: "task store \<Rightarrow> string list \<Rightarrow> task list \<times> nat \<Rightarrow> task list \<times> nat" where
  "tasks_loop tm [] acc = acc"
| "tasks_loop tm (task_id # rest) (actionable_tasks, completed_tasks) =
     (case get_task tm task_id of
        None \<Rightarrow> tasks_loop tm rest (actionable_tasks, completed_tasks)
      | Some t \<Rightarrow>
          if is_actionable t
          then tasks_loop tm rest
                 (actionable_tasks @ [t],
                  if is_completed t then completed_tasks + 1 else completed_tasks)
          else tasks_loop tm rest (actionable_tasks, completed_tasks))"

definition calculate_progress_from_tasks :: "process \<Rightarrow> task store \<Rightarrow> real" where
  "calculate_progress_from_tasks p tm =
     (if tasks p = [] then 0
      else
        (let (actionable_tasks, completed_tasks) = tasks_loop tm (tasks p) ([], 0)
         in if actionable_tasks = [] then 0
            else py_round1 ((real completed_tasks / real (length actionable_tasks)) * 100)))"

definition update_progress_from_tasks :: "datetime \<Rightarrow> process \<Rightarrow> task store \<Rightarrow> bool \<times> process" where
  "update_progress_from_tasks now p tm =
     (if \<not> is_progress_manual p
      then set_progress now p (calculate_progress_from_tasks p tm) False
      else (True, p))"

text \<open>The other mutators of \<^verbatim>\<open>Process\<close>.\<close>

definition set_assignee :: "datetime \<Rightarrow> process \<Rightarrow> string \<Rightarrow> bool \<times> process" where
  "set_assignee now p a =
     (if a \<noteq> [] \<and> strip a \<noteq> []
      then (True, p\<lparr>assignee := strip a, updated_at := now\<rparr>)
      else (False, p))"

definition set_dates :: "datetime \<Rightarrow> process \<Rightarrow> date option \<Rightarrow> date option \<Rightarrow> bool \<times> process" where
  "set_dates now p s e =
     (case (s, e) of
        (Some a, Some b) \<Rightarrow>
          if date_lt b a then (False, p)
          else (True, p\<lparr>process.start_date := s, process.end_date := e, updated_at := now\<rparr>)
      | _ \<Rightarrow> (True, p\<lparr>process.start_date := s, process.end_date := e, updated_at := now\<rparr>))"

definition add_task :: "datetime \<Rightarrow> process \<Rightarrow> string \<Rightarrow> bool \<times> process" where
  "add_task now p task_id =
     (if task_id \<notin> set (tasks p)
      then (True, p\<lparr>tasks := tasks p @ [task_id], updated_at := now\<rparr>)
      else (False, p))"

definition remove_task :: "datetime \<Rightarrow> process \<Rightarrow> string \<Rightarrow> bool \<times> process" where
  "remove_task now p task_id =
     (if task_id \<in> set (tasks p)
      then (True, p\<lparr>tasks := remove1 task_id (tasks p), updated_at := now\<rparr>)
      else (False, p))"

definition set_estimated_hours :: "datetime \<Rightarrow> process \<Rightarrow> real \<Rightarrow> bool \<times> process" where
  "set_estimated_hours now p h =
     (if 0 \<le> h then (True, p\<lparr>process.estimated_hours := Some h, updated_at := now\<rparr>)
      else (False, p))"

definition set_actual_hours :: "datetime \<Rightarrow> process \<Rightarrow> real \<Rightarrow> bool \<times> process" where
  "set_actual_hours now p h =
     (if 0 \<le> h then (True, p\<lparr>process.actual_hours := Some h, updated_at := now\<rparr>)
      else (False, p))"

text \<open>
  A call of one of the methods of \<^verbatim>\<open>Process\<close> that change the object, and the
  object after a sequence of such calls.
\<close>

datatype process_call =
    SetAssignee string
  | SetDates "date option" "date option"
  | SetProgress real bool
  | UpdateProgressFromTasks
  | AddTask string
  | RemoveTask string
  | SetEstimatedHours real
  | SetActualHours real

fun apply_call :: "datetime \<Rightarrow> task store \<Rightarrow> process_call \<Rightarrow> process \<Rightarrow> process" where
  "apply_call now tm (SetAssignee a) p = snd (set_assignee now p a)"
| "apply_call now tm (SetDates s e) p = snd (set_dates now p s e)"
| "apply_call now tm (SetProgress v m) p = snd (set_progress now p v m)"
| "apply_call now tm UpdateProgressFromTasks p = snd (update_progress_from_tasks now p tm)"
| "apply_call now tm (AddTask i) p = snd (add_task now p i)"
| "apply_call now tm (RemoveTask i) p = snd (remove_task now p i)"
| "apply_call now tm (SetEstimatedHours h) p = snd (set_estimated_hours now p h)"
| "apply_call now tm (SetActualHours h) p = snd (set_actual_hours now p h)"

fun apply_calls :: "datetime \<Rightarrow> task store \<Rightarrow> process_call list \<Rightarrow> process \<Rightarrow> process" where
  "apply_calls now tm [] p = p"
| "apply_calls now tm (c # cs) p = apply_calls now tm cs (apply_call now tm c p)"

text \<open>The calls \<^verbatim>\<open>set_progress(v, is_manual=False)\<close>.\<close>

fun selects_automatic :: "process_call \<Rightarrow> bool" where
  "selects_automatic (SetProgress v m) = (\<not> m)"
| "selects_automatic _ = False"

text \<open>\<^verbatim>\<open>ProcessManager.get_process\<close>.\<close>

definition get_process :: "process store \<Rightarrow> string \<Rightarrow> process option" where
  "get_process pm pid = pm pid"

text \<open>The tasks the loop of \<^verbatim>\<open>calculate_progress_from_tasks\<close> resolves, in list order.\<close>

definition resolved_tasks :: "task store \<Rightarrow> string list \<Rightarrow> task list" where
  "resolved_tasks tm ids = List.map_filter (get_task tm) ids"

section \<open>Errors\<close>

text \<open>
  The exceptions the modelled code can raise.  \<open>BusinessLogicError\<close> is the
  repository's own; the others are Python's.
\<close>

datatype error = AttributeError | KeyError string | ValueError | TypeError | BusinessLogicError

section \<open>Phase\<close>

record phase = base_entity +
  parent_project_id :: "string option"
  end_date :: "date option"
  progress :: real
  processes :: "string list"
  notes' :: string
  priority :: int
  milestone :: string
  deliverables :: "string list"

text \<open>
  The weight of a process in \<^verbatim>\<open>calculate_progress_from_processes\<close>:
  \<^verbatim>\<open>process.estimated_hours if process.estimated_hours else 1.0\<close>.  The condition is
  Python truthiness: \<^verbatim>\<open>None\<close> and \<^verbatim>\<open>0.0\<close> are both false.
\<close>

definition weight :: "process \<Rightarrow> real" where
  "weight p =
     (case process.estimated_hours p of
        None \<Rightarrow> 1
      | Some h \<Rightarrow> if h \<noteq> 0 then h else 1)"

text \<open>The first loop: the accumulator is (\<^verbatim>\<open>total_estimated_hours\<close>, \<^verbatim>\<open>weighted_progress\<close>).\<close>

fun processes_loop :: "process store \<Rightarrow> string list \<Rightarrow> real \<times> real \<Rightarrow> real \<times> real" where
  "processes_loop pm [] acc = acc"
| "processes_loop pm (process_id # rest) (total_estimated_hours, weighted_progress) =
     (case get_process pm process_id of
        None \<Rightarrow> processes_loop pm rest (total_estimated_hours, weighted_progress)
      | Some p \<Rightarrow>
          processes_loop pm rest
            (total_estimated_hours + weight p, weighted_progress + process.progress p * weight p))"

definition calculate_progress_from_processes :: "phase \<Rightarrow> process store \<Rightarrow> real" where
  "calculate_progress_from_processes ph pm =
     (if processes ph = [] then 0
      else
        (let (total_estimated_hours, weighted_progress) = processes_loop pm (processes ph) (0, 0)
         in if 0 < total_estimated_hours
            then py_round1 (weighted_progress / total_estimated_hours)
            else
              (let process_count = length (filter (\<lambda>p. get_process pm p \<noteq> None) (processes ph))
               in if 0 < process_count
                  then py_round1
                         (sum_list (map process.progress (List.map_filter (get_process pm) (processes ph)))
                          / real process_count)
                  else 0)))"

definition update_progress_from_processes :: "datetime \<Rightarrow> phase \<Rightarrow> process store \<Rightarrow> bool \<times> phase" where
  "update_progress_from_processes now ph pm =
     (let old_progress = phase.progress ph;
          ph1 = ph\<lparr>phase.progress := calculate_progress_from_processes ph pm\<rparr>
      in if old_progress \<noteq> phase.progress ph1
         then (True, ph1\<lparr>updated_at := now\<rparr>)
         else (False, ph1))"

definition phase_get_status :: "phase \<Rightarrow> string" where
  "phase_get_status ph =
     (if phase.progress ph = 0 then NOT_STARTED
      else if phase.progress ph = 100 then COMPLETED
      else IN_PROGRESS)"

text \<open>
  \<^verbatim>\<open>Phase.get_date_range(process_manager)\<close>.  The argument may be \<^verbatim>\<open>None\<close>; then
  the first iteration of the loop raises \<^verbatim>\<open>AttributeError\<close> at
  \<^verbatim>\<open>process_manager.get_process\<close>.  The result is the pair
  (\<^verbatim>\<open>start_date\<close>, \<^verbatim>\<open>end_date\<close>) of the returned dictionary.
\<close>

fun date_range_loop ::
  "process store option \<Rightarrow> string list \<Rightarrow> date list \<times> date list \<Rightarrow> error + date list \<times> date list" where
  "date_range_loop pmo [] acc = Inr acc"
| "date_range_loop pmo (process_id # rest) (start_dates, end_dates) =
     (case pmo of
        None \<Rightarrow> Inl AttributeError
      | Some pm \<Rightarrow>
          (case get_process pm process_id of
             None \<Rightarrow> date_range_loop pmo rest (start_dates, end_dates)
           | Some p \<Rightarrow>
               date_range_loop pmo rest
                 (case process.start_date p of None \<Rightarrow> start_dates | Some d \<Rightarrow> start_dates @ [d],
                  case process.end_date p of None \<Rightarrow> end_dates | Some d \<Rightarrow> end_dates @ [d])))"

definition get_date_range :: "phase \<Rightarrow> process store option \<Rightarrow> error + date option \<times> date option" where
  "get_date_range ph pmo =
     (case date_range_loop pmo (processes ph) ([], []) of
        Inl e \<Rightarrow> Inl e
      | Inr (start_dates, end_dates) \<Rightarrow>
          Inr (case start_dates of [] \<Rightarrow> None | d # ds \<Rightarrow> Some (min_from d ds),
               case end_dates of [] \<Rightarrow> phase.end_date ph | d # ds \<Rightarrow> Some (max_from d ds)))"

text \<open>\<^verbatim>\<open>PhaseManager.get_phase\<close>.\<close>

definition get_phase :: "phase store \<Rightarrow> string \<Rightarrow> phase option" where
  "get_phase fm phase_id = fm phase_id"

section \<open>Project\<close>

record project = base_entity +
  status :: string
  is_status_manual :: bool
  start_date :: "date option"
  end_date :: "date option"
  progress :: real
  phases :: "string list"
  notes' :: string
  priority :: int
  budget :: "real option"
  actual_cost :: "real option"
  manager :: string
  stakeholders :: "string list"
  tags :: "string list"
  risk_level :: int

definition project_set_status :: "datetime \<Rightarrow> project \<Rightarrow> string \<Rightarrow> bool \<Rightarrow> bool \<times> project" where
  "project_set_status now pj new is_manual =
     (if \<not> ProjectStatus_is_valid new then (False, pj)
      else (True, pj\<lparr>project.status := new, is_status_manual := is_manual, updated_at := now\<rparr>))"

text \<open>The statuses of the resolvable phases, in list order (\<^verbatim>\<open>phase_statuses\<close>).\<close>

definition phase_statuses :: "project \<Rightarrow> phase store \<Rightarrow> string list" where
  "phase_statuses pj fm = map phase_get_status (List.map_filter (get_phase fm) (phases pj))"

definition calculate_status_from_phases :: "project \<Rightarrow> phase store \<Rightarrow> string" where
  "calculate_status_from_phases pj fm =
     (if phases pj = [] then NOT_STARTED
      else
        (let sts = phase_statuses pj fm
         in if sts = [] then NOT_STARTED
            else if list_all (\<lambda>s. s = COMPLETED) sts then COMPLETED
            else if list_ex (\<lambda>s. s = IN_PROGRESS) sts then IN_PROGRESS
            else if list_all (\<lambda>s. s = NOT_STARTED) sts then NOT_STARTED
            else IN_PROGRESS))"

definition update_status_from_phases :: "datetime \<Rightarrow> project \<Rightarrow> phase store \<Rightarrow> bool \<times> project" where
  "update_status_from_phases now pj fm =
     (if \<not> is_status_manual pj
      then
        (let calculated_status = calculate_status_from_phases pj fm
         in if calculated_status \<noteq> project.status pj
            then project_set_status now pj calculated_status False
            else (True, pj))
      else (True, pj))"

text \<open>
  The loop of \<^verbatim>\<open>calculate_progress_from_phases\<close>.  Each resolvable phase is asked
  for \<^verbatim>\<open>phase.get_date_range(None)\<close>, whose exception propagates; the accumulator is
  (\<^verbatim>\<open>total_weight\<close>, \<^verbatim>\<open>weighted_progress\<close>).
\<close>

definition phase_duration :: "phase \<Rightarrow> date option \<Rightarrow> int" where
  "phase_duration ph range_start =
     (case phase.end_date ph of
        None \<Rightarrow> 1
      | Some e \<Rightarrow> (case range_start of None \<Rightarrow> 1 | Some s \<Rightarrow> days_between e s + 1))"

fun phases_loop :: "phase store \<Rightarrow> string list \<Rightarrow> real \<times> real \<Rightarrow> error + real \<times> real" where
  "phases_loop fm [] acc = Inr acc"
| "phases_loop fm (phase_id # rest) (total_weight, weighted_progress) =
     (case get_phase fm phase_id of
        None \<Rightarrow> phases_loop fm rest (total_weight, weighted_progress)
      | Some ph \<Rightarrow>
          (case get_date_range ph None of
             Inl e \<Rightarrow> Inl e
           | Inr date_range \<Rightarrow>
               (let duration = phase_duration ph (fst date_range);
                    w = real_of_int (max duration 1)
                in phases_loop fm rest
                     (total_weight + w, weighted_progress + phase.progress ph * w))))"

definition calculate_progress_from_phases :: "project \<Rightarrow> phase store \<Rightarrow> error + real" where
  "calculate_progress_from_phases pj fm =
     (if phases pj = [] then Inr 0
      else
        (case phases_loop fm (phases pj) (0, 0) of
           Inl e \<Rightarrow> Inl e
         | Inr (total_weight, weighted_progress) \<Rightarrow>
             if 0 < total_weight
             then Inr (py_round1 (weighted_progress / total_weight))
             else
               (let phase_count = length (filter (\<lambda>p. get_phase fm p \<noteq> None) (phases pj))
                in if 0 < phase_count
                   then Inr (py_round1
                          (sum_list (map phase.progress (List.map_filter (get_phase fm) (phases pj)))
                           / real phase_count))
                   else Inr 0)))"

definition update_progress_from_phases :: "datetime \<Rightarrow> project \<Rightarrow> phase store \<Rightarrow> error + bool \<times> project" where
  "update_progress_from_phases now pj fm =
     (case calculate_progress_from_phases pj fm of
        Inl e \<Rightarrow> Inl e
      | Inr v \<Rightarrow>
          (let old_progress = project.progress pj;
               pj1 = pj\<lparr>project.progress := v\<rparr>
           in if old_progress \<noteq> project.progress pj1
              then Inr (True, pj1\<lparr>updated_at := now\<rparr>)
              else Inr (False, pj1)))"

text \<open>\<^verbatim>\<open>ProjectManager.get_project\<close>.\<close>

definition get_project :: "project store \<Rightarrow> string \<Rightarrow> project option" where
  "get_project jm project_id = jm project_id"

section \<open>Validation\<close>

text \<open>\<^verbatim>\<open>BaseEntity.validate\<close> before it delegates to \<^verbatim>\<open>_validate_additional\<close>.\<close>

definition base_validate :: "'a base_entity_scheme \<Rightarrow> bool" where
  "base_validate e =
     (if name e = [] \<or> strip (name e) = [] then False
      else if id' e = [] then False
      else True)"

definition dates_ordered :: "date option \<Rightarrow> date option \<Rightarrow> bool" where
  "dates_ordered s e = (case (s, e) of (Some a, Some b) \<Rightarrow> \<not> date_lt b a | _ \<Rightarrow> True)"

definition non_negative :: "real option \<Rightarrow> bool" where
  "non_negative h = (case h of None \<Rightarrow> True | Some x \<Rightarrow> \<not> x < 0)"

definition process_validate :: "process \<Rightarrow> bool" where
  "process_validate p =
     (base_validate p \<and>
      (if assignee p = [] \<or> strip (assignee p) = [] then False
       else if \<not> (0 \<le> process.progress p \<and> process.progress p \<le> 100) then False
       else if \<not> dates_ordered (process.start_date p) (process.end_date p) then False
       else if \<not> non_negative (process.estimated_hours p) then False
       else if \<not> non_negative (process.actual_hours p) then False
       else if \<not> (1 \<le> process.priority p \<and> process.priority p \<le> 5) then False
       else True))"

definition phase_validate :: "phase \<Rightarrow> bool" where
  "phase_validate ph =
     (base_validate ph \<and>
      (if \<not> (0 \<le> phase.progress ph \<and> phase.progress ph \<le> 100) then False
       else if \<not> (1 \<le> phase.priority ph \<and> phase.priority ph \<le> 5) then False
       else True))"

definition project_validate :: "project \<Rightarrow> bool" where
  "project_validate pj =
     (base_validate pj \<and>
      (if \<not> ProjectStatus_is_valid (project.status pj) then False
       else if \<not> (0 \<le> project.progress pj \<and> project.progress pj \<le> 100) then False
       else if \<not> dates_ordered (project.start_date pj) (project.end_date pj) then False
       else if \<not> non_negative (budget pj) then False
       else if \<not> non_negative (actual_cost pj) then False
       else if \<not> (1 \<le> project.priority pj \<and> project.priority pj \<le> 5) then False
       else if \<not> (1 \<le> risk_level pj \<and> risk_level pj \<le> 3) then False
       else True))"

section \<open>The entity managers\<close>

text \<open>
  \<^verbatim>\<open>ProcessManager.create_process\<close>; an id argument is used when it is truthy (not
  \<^verbatim>\<open>None\<close> and not empty).
\<close>

definition truthy :: "string option \<Rightarrow> bool" where
  "truthy x = (case x of None \<Rightarrow> False | Some v \<Rightarrow> v \<noteq> [])"

definition ProcessManager_create_process ::
  "string \<Rightarrow> datetime \<Rightarrow> process store \<Rightarrow> string \<Rightarrow> string \<Rightarrow> string \<Rightarrow> string option
     \<Rightarrow> process \<times> process store" where
  "ProcessManager_create_process uid now pm nm asg descr phase_id =
     (let p = Process_init uid now nm descr asg;
          p1 = (if truthy phase_id then p\<lparr>parent_phase_id := phase_id\<rparr> else p)
      in (p1, pm(id' p1 \<mapsto> p1)))"

text \<open>
  The managers' \<^verbatim>\<open>update_*\<close> methods: on success the object gets a new timestamp and
  is stored under its id.  The updated object is returned as well, since the caller holds
  a reference to it.
\<close>

definition ProcessManager_update_process ::
  "datetime \<Rightarrow> process store \<Rightarrow> process \<Rightarrow> bool \<times> process \<times> process store" where
  "ProcessManager_update_process now pm p =
     (if process_validate p \<and> id' p \<in> dom pm
      then (let p1 = p\<lparr>updated_at := now\<rparr> in (True, p1, pm(id' p1 \<mapsto> p1)))
      else (False, p, pm))"

definition PhaseManager_update_phase ::
  "datetime \<Rightarrow> phase store \<Rightarrow> phase \<Rightarrow> bool \<times> phase \<times> phase store" where
  "PhaseManager_update_phase now fm ph =
     (if phase_validate ph \<and> id' ph \<in> dom fm
      then (let ph1 = ph\<lparr>updated_at := now\<rparr> in (True, ph1, fm(id' ph1 \<mapsto> ph1)))
      else (False, ph, fm))"

definition ProjectManager_update_project ::
  "datetime \<Rightarrow> project store \<Rightarrow> project \<Rightarrow> bool \<times> project \<times> project store" where
  "ProjectManager_update_project now jm pj =
     (if project_validate pj \<and> id' pj \<in> dom jm
      then (let pj1 = pj\<lparr>updated_at := now\<rparr> in (True, pj1, jm(id' pj1 \<mapsto> pj1)))
      else (False, pj, jm))"

section \<open>The orchestrator\<close>

text \<open>
  \<^verbatim>\<open>ProjectManagementSystem\<close> (core/manager.py) holds the four entity managers.  Its
  methods receive objects that live in the managers' dictionaries and mutate them in
  place.  Here the argument object is named by the key \<open>k\<close> under which its manager
  holds it (the cascade always obtains it by such a lookup), and an in-place mutation is
  an update of that slot; under a key that holds no object there is nothing to call the
  method on, and the state is returned as it is.  The decorator \<^verbatim>\<open>handle_errors\<close> catches every exception
  and returns its fallback value \<^verbatim>\<open>None\<close>: the result type is \<open>bool option\<close>.
  The storage layer, the audit log and the notification engine are external to the
  entity managers, do not write to them, and are taken to succeed; they are left out.
  One clock reading \<open>now\<close> serves all the timestamps of a call.
\<close>

record system =
  project_manager :: "project store"
  phase_manager :: "phase store"
  process_manager :: "process store"
  task_manager :: "task store"

definition update_project :: "datetime \<Rightarrow> string \<Rightarrow> system \<Rightarrow> bool option \<times> system" where
  "update_project now k s =
     (case project_manager s k of
        None \<Rightarrow> (None, s)
      | Some pj \<Rightarrow>
          if \<not> project_validate pj then (None, s)
          else
            (case (if \<not> is_status_manual pj
                   then (let pj1 = snd (update_status_from_phases now pj (phase_manager s))
                         in case update_progress_from_phases now pj1 (phase_manager s) of
                              Inl e \<Rightarrow> Inl pj1
                            | Inr r \<Rightarrow> Inr (snd r))
                   else Inr pj) of
               Inl pj1 \<Rightarrow> (None, s\<lparr>project_manager := (project_manager s)(k \<mapsto> pj1)\<rparr>)
             | Inr pj2 \<Rightarrow>
                 (let (success, pj3, jm) =
                        ProjectManager_update_project now ((project_manager s)(k \<mapsto> pj2)) pj2
                  in (Some success, s\<lparr>project_manager := jm(k \<mapsto> pj3)\<rparr>))))"

definition update_phase :: "datetime \<Rightarrow> string \<Rightarrow> system \<Rightarrow> bool option \<times> system" where
  "update_phase now k s =
     (case phase_manager s k of
        None \<Rightarrow> (None, s)
      | Some ph \<Rightarrow>
          (let ph1 = snd (update_progress_from_processes now ph (process_manager s));
               (success, ph2, fm) =
                  PhaseManager_update_phase now ((phase_manager s)(k \<mapsto> ph1)) ph1;
               s1 = s\<lparr>phase_manager := fm(k \<mapsto> ph2)\<rparr>
           in if success
              then (Some True,
                    case parent_project_id ph2 of
                      None \<Rightarrow> s1
                    | Some jk \<Rightarrow>
                        if jk \<noteq> [] \<and> get_project (project_manager s1) jk \<noteq> None
                        then snd (update_project now jk s1)
                        else s1)
              else (Some False, s1)))"

definition update_process :: "datetime \<Rightarrow> string \<Rightarrow> system \<Rightarrow> bool option \<times> system" where
  "update_process now k s =
     (case process_manager s k of
        None \<Rightarrow> (None, s)
      | Some p \<Rightarrow>
          (let p1 = (if \<not> is_progress_manual p
                     then snd (update_progress_from_tasks now p (task_manager s))
                     else p);
               (success, p2, pm) =
                  ProcessManager_update_process now ((process_manager s)(k \<mapsto> p1)) p1;
               s1 = s\<lparr>process_manager := pm(k \<mapsto> p2)\<rparr>
           in if success
              then (Some True,
                    case parent_phase_id p2 of
                      None \<Rightarrow> s1
                    | Some fk \<Rightarrow>
                        if fk \<noteq> [] \<and> get_phase (phase_manager s1) fk \<noteq> None
                        then snd (update_phase now fk s1)
                        else s1)
              else (Some False, s1)))"

definition cascade_update_progress :: "datetime \<Rightarrow> task \<Rightarrow> system \<Rightarrow> system" where
  "cascade_update_progress now t s =
     (case parent_process_id t of
        None \<Rightarrow> s
      | Some pk \<Rightarrow>
          if pk \<noteq> [] \<and> get_process (process_manager s) pk \<noteq> None
          then snd (update_process now pk s)
          else s)"

text \<open>
  \<^verbatim>\<open>update_task_status(task_id, new_status, comment)\<close>; \<open>user\<close> is
  \<^verbatim>\<open>self.logger.current_user\<close> and \<open>cid\<close> the id of the history entry.
\<close>

definition update_task_status ::
  "string \<Rightarrow> datetime \<Rightarrow> string \<Rightarrow> string \<Rightarrow> string \<Rightarrow> string \<Rightarrow> system \<Rightarrow> bool option \<times> system" where
  "update_task_status cid now user task_id new comment' s =
     (case get_task (task_manager s) task_id of
        None \<Rightarrow> (Some False, s)
      | Some t \<Rightarrow>
          (let (success, t1) = task_set_status cid now t new user comment';
               s1 = s\<lparr>task_manager := (task_manager s)(task_id \<mapsto> t1)\<rparr>
           in if success then (Some True, cascade_update_progress now t1 s1)
              else (Some False, s1)))"





definition resolved_phases :: "phase store \<Rightarrow> string list \<Rightarrow> phase list" where
  "resolved_phases fm ids = List.map_filter (get_phase fm) ids"


section \<open>Serialization\<close>

text \<open>
  The values a serialized dictionary holds, and the dictionary itself (insertion-ordered,
  as Python's).
\<close>

datatype pyval =
    PNone
  | PBool bool
  | PInt int
  | PFloat real
  | PStr string
  | PList "pyval list"
  | PDict "(string \<times> pyval) list"

type_synonym pydict = "(string \<times> pyval) list"

text \<open>\<^verbatim>\<open>d.update(other)\<close>, \<^verbatim>\<open>d[k]\<close> and \<^verbatim>\<open>d.get(k, default)\<close>.\<close>

definition py_update :: "pydict \<Rightarrow> pydict \<Rightarrow> pydict" where
  "py_update d other = foldl (\<lambda>acc kv. dict_set acc (fst kv) (snd kv)) d other"

definition getitem :: "pydict \<Rightarrow> string \<Rightarrow> error + pyval" where
  "getitem d k = (case map_of d k of None \<Rightarrow> Inl (KeyError k) | Some v \<Rightarrow> Inr v)"

definition get_default :: "pydict \<Rightarrow> string \<Rightarrow> pyval \<Rightarrow> pyval" where
  "get_default d k dflt = (case map_of d k of None \<Rightarrow> dflt | Some v \<Rightarrow> v)"

text \<open>Python truthiness of a value.\<close>

fun py_truthy :: "pyval \<Rightarrow> bool" where
  "py_truthy PNone = False"
| "py_truthy (PBool b) = b"
| "py_truthy (PInt i) = (i \<noteq> 0)"
| "py_truthy (PFloat x) = (x \<noteq> 0)"
| "py_truthy (PStr s) = (s \<noteq> [])"
| "py_truthy (PList xs) = (xs \<noteq> [])"
| "py_truthy (PDict kvs) = (kvs \<noteq> [])"

text \<open>Sequencing of steps that may raise.\<close>

definition sum_bind :: "'e + 'a \<Rightarrow> ('a \<Rightarrow> 'e + 'b) \<Rightarrow> 'e + 'b" where
  "sum_bind m f = (case m of Inl e \<Rightarrow> Inl e | Inr x \<Rightarrow> f x)"

fun sum_mapM :: "('a \<Rightarrow> 'e + 'b) \<Rightarrow> 'a list \<Rightarrow> 'e + 'b list" where
  "sum_mapM f [] = Inr []"
| "sum_mapM f (x # xs) =
     (case f x of
        Inl e \<Rightarrow> Inl e
      | Inr y \<Rightarrow> (case sum_mapM f xs of Inl e \<Rightarrow> Inl e | Inr ys \<Rightarrow> Inr (y # ys)))"

text \<open>
  The attributes of the records are typed.  Python would store a value of any type; here
  a value whose type is not the one the attribute is annotated with is reported as
  \<open>TypeError\<close> where it would be assigned.  An integer is accepted for a float.
\<close>

definition as_str :: "pyval \<Rightarrow> error + string" where
  "as_str v = (case v of PStr s \<Rightarrow> Inr s | _ \<Rightarrow> Inl TypeError)"

definition as_opt_str :: "pyval \<Rightarrow> error + string option" where
  "as_opt_str v = (case v of PNone \<Rightarrow> Inr None | PStr s \<Rightarrow> Inr (Some s) | _ \<Rightarrow> Inl TypeError)"

definition as_int :: "pyval \<Rightarrow> error + int" where
  "as_int v = (case v of PInt i \<Rightarrow> Inr i | _ \<Rightarrow> Inl TypeError)"

definition as_bool :: "pyval \<Rightarrow> error + bool" where
  "as_bool v = (case v of PBool b \<Rightarrow> Inr b | _ \<Rightarrow> Inl TypeError)"

definition as_float :: "pyval \<Rightarrow> error + real" where
  "as_float v = (case v of PFloat x \<Rightarrow> Inr x | PInt i \<Rightarrow> Inr (real_of_int i) | _ \<Rightarrow> Inl TypeError)"

definition as_opt_float :: "pyval \<Rightarrow> error + real option" where
  "as_opt_float v =
     (case v of PNone \<Rightarrow> Inr None | PFloat x \<Rightarrow> Inr (Some x) | PInt i \<Rightarrow> Inr (Some (real_of_int i))
      | _ \<Rightarrow> Inl TypeError)"

text \<open>\<^verbatim>\<open>data.get(k, []).copy()\<close> for a list of strings: a value without \<^verbatim>\<open>copy\<close> raises.\<close>

definition as_str_list :: "pyval \<Rightarrow> error + string list" where
  "as_str_list v =
     (case v of
        PList xs \<Rightarrow> sum_mapM as_str xs
      | PDict kvs \<Rightarrow> Inl TypeError
      | _ \<Rightarrow> Inl AttributeError)"

definition opt_str :: "string option \<Rightarrow> pyval" where
  "opt_str x = (case x of None \<Rightarrow> PNone | Some s \<Rightarrow> PStr s)"

definition opt_float :: "real option \<Rightarrow> pyval" where
  "opt_float x = (case x of None \<Rightarrow> PNone | Some v \<Rightarrow> PFloat v)"

subsection \<open>ISO 8601 text of dates and datetimes\<close>

text \<open>
  \<^verbatim>\<open>isoformat\<close> of the standard library writes \<^verbatim>\<open>YYYY-MM-DD\<close> for a date and
  \<^verbatim>\<open>YYYY-MM-DDTHH:MM:SS\<close>, followed by \<^verbatim>\<open>.ffffff\<close> when the microsecond is not
  0, for a naive datetime.  \<^verbatim>\<open>fromisoformat\<close> is modelled on the texts that
  \<^verbatim>\<open>isoformat\<close> writes (and the date-only text for a datetime); any other text is
  reported as \<open>ValueError\<close>.  A date object always satisfies \<open>valid_date\<close>, a
  datetime object \<open>valid_datetime\<close>.
\<close>

definition digit :: "nat \<Rightarrow> char" where
  "digit n = char_of (48 + n)"

definition is_digit :: "char \<Rightarrow> bool" where
  "is_digit c = (48 \<le> (of_char c :: nat) \<and> (of_char c :: nat) \<le> 57)"

definition digit_val :: "char \<Rightarrow> nat" where
  "digit_val c = of_char c - 48"

definition pad2 :: "nat \<Rightarrow> string" where
  "pad2 n = [digit (n div 10), digit (n mod 10)]"

definition pad4 :: "nat \<Rightarrow> string" where
  "pad4 n = pad2 (n div 100) @ pad2 (n mod 100)"

definition pad6 :: "nat \<Rightarrow> string" where
  "pad6 n = pad2 (n div 10000) @ pad2 (n div 100 mod 100) @ pad2 (n mod 100)"

definition parse_digits :: "string \<Rightarrow> nat option" where
  "parse_digits s =
     (if s \<noteq> [] \<and> list_all is_digit s
      then Some (foldl (\<lambda>a c. 10 * a + digit_val c) 0 s)
      else None)"

definition valid_date :: "'a date_scheme \<Rightarrow> bool" where
  "valid_date d =
     (1 \<le> year d \<and> year d \<le> 9999 \<and> 1 \<le> month d \<and> month d \<le> 12
      \<and> 1 \<le> day d \<and> day d \<le> days_in_month (year d) (month d))"

definition valid_datetime :: "datetime \<Rightarrow> bool" where
  "valid_datetime t =
     (valid_date t \<and> hour t < 24 \<and> minute t < 60 \<and> second t < 60 \<and> microsecond t < 1000000)"

definition date_isoformat :: "date \<Rightarrow> string" where
  "date_isoformat d = pad4 (year d) @ ''-'' @ pad2 (month d) @ ''-'' @ pad2 (day d)"

definition datetime_isoformat :: "datetime \<Rightarrow> string" where
  "datetime_isoformat t =
     pad4 (year t) @ ''-'' @ pad2 (month t) @ ''-'' @ pad2 (day t) @ ''T''
     @ pad2 (hour t) @ '':'' @ pad2 (minute t) @ '':'' @ pad2 (second t)
     @ (if microsecond t \<noteq> 0 then ''.'' @ pad6 (microsecond t) else [])"

definition parse_date_part :: "string \<Rightarrow> date option" where
  "parse_date_part s =
     (if length s = 10 \<and> s ! 4 = CHR ''-'' \<and> s ! 7 = CHR ''-''
      then (case (parse_digits (take 4 s), parse_digits (take 2 (drop 5 s)),
                  parse_digits (take 2 (drop 8 s))) of
              (Some y, Some m, Some d) \<Rightarrow>
                (let r = \<lparr>year = y, month = m, day = d\<rparr>
                 in if valid_date r then Some r else None)
            | _ \<Rightarrow> None)
      else None)"

definition parse_time_part :: "string \<Rightarrow> (nat \<times> nat \<times> nat \<times> nat) option" where
  "parse_time_part s =
     (if (length s = 8 \<or> (length s = 15 \<and> s ! 8 = CHR ''.''))
         \<and> s ! 2 = CHR '':'' \<and> s ! 5 = CHR '':''
      then (case (parse_digits (take 2 s), parse_digits (take 2 (drop 3 s)),
                  parse_digits (take 2 (drop 6 s)),
                  if length s = 8 then Some 0 else parse_digits (drop 9 s)) of
              (Some h, Some mi, Some sec, Some us) \<Rightarrow>
                if h < 24 \<and> mi < 60 \<and> sec < 60 then Some (h, mi, sec, us) else None
            | _ \<Rightarrow> None)
      else None)"

definition date_fromisoformat :: "string \<Rightarrow> error + date" where
  "date_fromisoformat s = (case parse_date_part s of None \<Rightarrow> Inl ValueError | Some d \<Rightarrow> Inr d)"

definition datetime_fromisoformat :: "string \<Rightarrow> error + datetime" where
  "datetime_fromisoformat s =
     (case parse_date_part (take 10 s) of
        None \<Rightarrow> Inl ValueError
      | Some d \<Rightarrow>
          if length s = 10
          then Inr \<lparr>year = year d, month = month d, day = day d,
                    hour = 0, minute = 0, second = 0, microsecond = 0\<rparr>
          else
            (case parse_time_part (drop 11 s) of
               None \<Rightarrow> Inl ValueError
             | Some (h, mi, sec, us) \<Rightarrow>
                 Inr \<lparr>year = year d, month = month d, day = day d,
                      hour = h, minute = mi, second = sec, microsecond = us\<rparr>))"

text \<open>Reading a datetime item (\<^verbatim>\<open>datetime.fromisoformat(data[k])\<close>) and an optional date.\<close>

definition item_str :: "pydict \<Rightarrow> string \<Rightarrow> error + string" where
  "item_str data k = sum_bind (getitem data k) as_str"

definition item_datetime :: "pydict \<Rightarrow> string \<Rightarrow> error + datetime" where
  "item_datetime data k = sum_bind (item_str data k) datetime_fromisoformat"

definition get_opt_date :: "pydict \<Rightarrow> string \<Rightarrow> error + date option" where
  "get_opt_date data k =
     (if py_truthy (get_default data k PNone)
      then sum_bind (item_str data k) (\<lambda>s. sum_bind (date_fromisoformat s) (\<lambda>d. Inr (Some d)))
      else Inr None)"

definition opt_date :: "date option \<Rightarrow> pyval" where
  "opt_date x = (case x of None \<Rightarrow> PNone | Some d \<Rightarrow> PStr (date_isoformat d))"

subsection \<open>Reading typed attributes\<close>

definition get_str :: "pydict \<Rightarrow> string \<Rightarrow> string \<Rightarrow> error + string" where
  "get_str data k dflt = as_str (get_default data k (PStr dflt))"

definition get_opt_str :: "pydict \<Rightarrow> string \<Rightarrow> error + string option" where
  "get_opt_str data k = as_opt_str (get_default data k PNone)"

definition get_int :: "pydict \<Rightarrow> string \<Rightarrow> int \<Rightarrow> error + int" where
  "get_int data k dflt = as_int (get_default data k (PInt dflt))"

definition get_bool :: "pydict \<Rightarrow> string \<Rightarrow> bool \<Rightarrow> error + bool" where
  "get_bool data k dflt = as_bool (get_default data k (PBool dflt))"

definition get_float :: "pydict \<Rightarrow> string \<Rightarrow> real \<Rightarrow> error + real" where
  "get_float data k dflt = as_float (get_default data k (PFloat dflt))"

definition get_opt_float :: "pydict \<Rightarrow> string \<Rightarrow> error + real option" where
  "get_opt_float data k = as_opt_float (get_default data k PNone)"

definition get_str_list :: "pydict \<Rightarrow> string \<Rightarrow> error + string list" where
  "get_str_list data k = as_str_list (get_default data k (PList []))"

definition as_list :: "pyval \<Rightarrow> error + pyval list" where
  "as_list v = (case v of PList xs \<Rightarrow> Inr xs | _ \<Rightarrow> Inl TypeError)"

definition as_dict :: "pyval \<Rightarrow> error + pydict" where
  "as_dict v = (case v of PDict kvs \<Rightarrow> Inr kvs | _ \<Rightarrow> Inl TypeError)"

subsection \<open>\<^verbatim>\<open>to_dict\<close> and \<^verbatim>\<open>from_dict\<close>\<close>

text \<open>\<^verbatim>\<open>BaseEntity.to_dict\<close>: the base dictionary, updated with the subclass's.\<close>

definition base_dict :: "'a base_entity_scheme \<Rightarrow> pydict" where
  "base_dict e =
     [(''id'', PStr (id' e)), (''name'', PStr (name e)), (''description'', PStr (description e)),
      (''created_at'', PStr (datetime_isoformat (created_at e))),
      (''updated_at'', PStr (datetime_isoformat (updated_at e)))]"

definition StatusChange_to_dict :: "StatusChange \<Rightarrow> pydict" where
  "StatusChange_to_dict c =
     [(''id'', PStr (change_id c)), (''old_status'', PStr (old_status c)),
      (''new_status'', PStr (new_status c)),
      (''changed_at'', PStr (datetime_isoformat (changed_at c))),
      (''changed_by'', PStr (changed_by c)), (''comment'', PStr (comment c))]"

definition StatusChange_from_dict :: "string \<Rightarrow> datetime \<Rightarrow> pydict \<Rightarrow> error + StatusChange" where
  "StatusChange_from_dict cid now data =
     sum_bind (item_str data ''old_status'') (\<lambda>old.
     sum_bind (item_str data ''new_status'') (\<lambda>new.
     sum_bind (get_str data ''changed_by'' ''system'') (\<lambda>by.
     sum_bind (item_str data ''id'') (\<lambda>i.
     sum_bind (item_datetime data ''changed_at'') (\<lambda>cat.
     sum_bind (get_str data ''comment'' []) (\<lambda>c.
     Inr ((StatusChange_init cid now old new by)
            \<lparr>change_id := i, changed_at := cat, comment := c\<rparr>)))))))"

text \<open>\<^verbatim>\<open>Task.__init__\<close>: the defaults and the initial history entry.\<close>

definition Task_init :: "string \<Rightarrow> string \<Rightarrow> datetime \<Rightarrow> string \<Rightarrow> string \<Rightarrow> task" where
  "Task_init uid cid now nm descr =
     add_status_change cid now
       \<lparr>id' = uid, name = nm, description = descr, created_at = now, updated_at = now,
        task.status = NOT_STARTED, status_history = [], parent_process_id = None,
        task.priority = 3, task.estimated_hours = None, task.actual_hours = None,
        task.notes' = [], task.tags = []\<rparr>
       [] NOT_STARTED ''system''"

definition Task_to_dict :: "task \<Rightarrow> pydict" where
  "Task_to_dict t =
     py_update (base_dict t)
       [(''status'', PStr (task.status t)),
        (''status_history'', PList (map (\<lambda>c. PDict (StatusChange_to_dict c)) (status_history t))),
        (''parent_process_id'', opt_str (parent_process_id t)),
        (''priority'', PInt (task.priority t)),
        (''estimated_hours'', opt_float (task.estimated_hours t)),
        (''actual_hours'', opt_float (task.actual_hours t)),
        (''notes'', PStr (task.notes' t)),
        (''tags'', PList (map PStr (task.tags t)))]"

definition Task_from_dict :: "string \<Rightarrow> string \<Rightarrow> datetime \<Rightarrow> pydict \<Rightarrow> error + task" where
  "Task_from_dict uid cid now data =
     sum_bind (item_str data ''name'') (\<lambda>nm.
     sum_bind (get_str data ''description'' []) (\<lambda>descr.
     sum_bind (item_str data ''id'') (\<lambda>i.
     sum_bind (item_datetime data ''created_at'') (\<lambda>ca.
     sum_bind (item_datetime data ''updated_at'') (\<lambda>ua.
     sum_bind (get_str data ''status'' NOT_STARTED) (\<lambda>st.
     sum_bind (get_opt_str data ''parent_process_id'') (\<lambda>par.
     sum_bind (get_int data ''priority'' 3) (\<lambda>pri.
     sum_bind (get_opt_float data ''estimated_hours'') (\<lambda>eh.
     sum_bind (get_opt_float data ''actual_hours'') (\<lambda>ah.
     sum_bind (get_str data ''notes'' []) (\<lambda>nt.
     sum_bind (get_str_list data ''tags'') (\<lambda>tg.
     sum_bind (as_list (get_default data ''status_history'' (PList []))) (\<lambda>changes.
     sum_bind (sum_mapM (\<lambda>v. sum_bind (as_dict v) (StatusChange_from_dict cid now)) changes) (\<lambda>hist.
     Inr ((Task_init uid cid now nm descr)
            \<lparr>id' := i, created_at := ca, updated_at := ua, task.status := st,
             parent_process_id := par, task.priority := pri, task.estimated_hours := eh,
             task.actual_hours := ah, task.notes' := nt, task.tags := tg,
             status_history := hist\<rparr>)))))))))))))))"

definition Process_to_dict :: "process \<Rightarrow> pydict" where
  "Process_to_dict p =
     py_update (base_dict p)
       [(''assignee'', PStr (assignee p)),
        (''parent_phase_id'', opt_str (parent_phase_id p)),
        (''start_date'', opt_date (process.start_date p)),
        (''end_date'', opt_date (process.end_date p)),
        (''estimated_hours'', opt_float (process.estimated_hours p)),
        (''actual_hours'', opt_float (process.actual_hours p)),
        (''progress'', PFloat (process.progress p)),
        (''is_progress_manual'', PBool (is_progress_manual p)),
        (''tasks'', PList (map PStr (process.tasks p))),
        (''notes'', PStr (process.notes' p)),
        (''priority'', PInt (process.priority p))]"

definition Process_from_dict :: "string \<Rightarrow> datetime \<Rightarrow> pydict \<Rightarrow> error + process" where
  "Process_from_dict uid now data =
     sum_bind (item_str data ''name'') (\<lambda>nm.
     sum_bind (get_str data ''description'' []) (\<lambda>descr.
     sum_bind (get_str data ''assignee'' []) (\<lambda>asg.
     sum_bind (item_str data ''id'') (\<lambda>i.
     sum_bind (item_datetime data ''created_at'') (\<lambda>ca.
     sum_bind (item_datetime data ''updated_at'') (\<lambda>ua.
     sum_bind (get_opt_str data ''parent_phase_id'') (\<lambda>par.
     sum_bind (get_opt_date data ''start_date'') (\<lambda>sd.
     sum_bind (get_opt_date data ''end_date'') (\<lambda>ed.
     sum_bind (get_opt_float data ''estimated_hours'') (\<lambda>eh.
     sum_bind (get_opt_float data ''actual_hours'') (\<lambda>ah.
     sum_bind (get_float data ''progress'' 0) (\<lambda>pr.
     sum_bind (get_bool data ''is_progress_manual'' True) (\<lambda>man.
     sum_bind (get_str_list data ''tasks'') (\<lambda>ts.
     sum_bind (get_str data ''notes'' []) (\<lambda>nt.
     sum_bind (get_int data ''priority'' 3) (\<lambda>pri.
     Inr ((Process_init uid now nm descr asg)
            \<lparr>id' := i, created_at := ca, updated_at := ua, parent_phase_id := par,
             process.start_date := sd, process.end_date := ed,
             process.estimated_hours := eh, process.actual_hours := ah,
             process.progress := pr, is_progress_manual := man, process.tasks := ts,
             process.notes' := nt, process.priority := pri\<rparr>)))))))))))))))))"

definition Phase_init :: "string \<Rightarrow> datetime \<Rightarrow> string \<Rightarrow> string \<Rightarrow> phase" where
  "Phase_init uid now nm descr =
     \<lparr>id' = uid, name = nm, description = descr, created_at = now, updated_at = now,
      parent_project_id = None, phase.end_date = None, phase.progress = 0, processes = [],
      phase.notes' = [], phase.priority = 3, milestone = [], deliverables = []\<rparr>"

definition Phase_to_dict :: "phase \<Rightarrow> pydict" where
  "Phase_to_dict ph =
     py_update (base_dict ph)
       [(''parent_project_id'', opt_str (parent_project_id ph)),
        (''end_date'', opt_date (phase.end_date ph)),
        (''progress'', PFloat (phase.progress ph)),
        (''processes'', PList (map PStr (processes ph))),
        (''notes'', PStr (phase.notes' ph)),
        (''priority'', PInt (phase.priority ph)),
        (''milestone'', PStr (milestone ph)),
        (''deliverables'', PList (map PStr (deliverables ph)))]"

definition Phase_from_dict :: "string \<Rightarrow> datetime \<Rightarrow> pydict \<Rightarrow> error + phase" where
  "Phase_from_dict uid now data =
     sum_bind (item_str data ''name'') (\<lambda>nm.
     sum_bind (get_str data ''description'' []) (\<lambda>descr.
     sum_bind (item_str data ''id'') (\<lambda>i.
     sum_bind (item_datetime data ''created_at'') (\<lambda>ca.
     sum_bind (item_datetime data ''updated_at'') (\<lambda>ua.
     sum_bind (get_opt_str data ''parent_project_id'') (\<lambda>par.
     sum_bind (get_opt_date data ''end_date'') (\<lambda>ed.
     sum_bind (get_float data ''progress'' 0) (\<lambda>pr.
     sum_bind (get_str_list data ''processes'') (\<lambda>ps.
     sum_bind (get_str data ''notes'' []) (\<lambda>nt.
     sum_bind (get_int data ''priority'' 3) (\<lambda>pri.
     sum_bind (get_str data ''milestone'' []) (\<lambda>ms.
     sum_bind (get_str_list data ''deliverables'') (\<lambda>dl.
     Inr ((Phase_init uid now nm descr)
            \<lparr>id' := i, created_at := ca, updated_at := ua, parent_project_id := par,
             phase.end_date := ed, phase.progress := pr, processes := ps,
             phase.notes' := nt, phase.priority := pri, milestone := ms,
             deliverables := dl\<rparr>))))))))))))))"

definition Project_init :: "string \<Rightarrow> datetime \<Rightarrow> string \<Rightarrow> string \<Rightarrow> project" where
  "Project_init uid now nm descr =
     \<lparr>id' = uid, name = nm, description = descr, created_at = now, updated_at = now,
      project.status = NOT_STARTED, is_status_manual = False, project.start_date = None,
      project.end_date = None, project.progress = 0, phases = [], project.notes' = [],
      project.priority = 3, budget = None, actual_cost = None, manager = [],
      stakeholders = [], project.tags = [], risk_level = 2\<rparr>"

definition Project_to_dict :: "project \<Rightarrow> pydict" where
  "Project_to_dict pj =
     py_update (base_dict pj)
       [(''status'', PStr (project.status pj)),
        (''is_status_manual'', PBool (is_status_manual pj)),
        (''start_date'', opt_date (project.start_date pj)),
        (''end_date'', opt_date (project.end_date pj)),
        (''progress'', PFloat (project.progress pj)),
        (''phases'', PList (map PStr (phases pj))),
        (''notes'', PStr (project.notes' pj)),
        (''priority'', PInt (project.priority pj)),
        (''budget'', opt_float (budget pj)),
        (''actual_cost'', opt_float (actual_cost pj)),
        (''manager'', PStr (manager pj)),
        (''stakeholders'', PList (map PStr (stakeholders pj))),
        (''tags'', PList (map PStr (project.tags pj))),
        (''risk_level'', PInt (risk_level pj))]"

definition Project_from_dict :: "string \<Rightarrow> datetime \<Rightarrow> pydict \<Rightarrow> error + project" where
  "Project_from_dict uid now data =
     sum_bind (item_str data ''name'') (\<lambda>nm.
     sum_bind (get_str data ''description'' []) (\<lambda>descr.
     sum_bind (item_str data ''id'') (\<lambda>i.
     sum_bind (item_datetime data ''created_at'') (\<lambda>ca.
     sum_bind (item_datetime data ''updated_at'') (\<lambda>ua.
     sum_bind (get_str data ''status'' NOT_STARTED) (\<lambda>st.
     sum_bind (get_bool data ''is_status_manual'' False) (\<lambda>man.
     sum_bind (get_opt_date data ''start_date'') (\<lambda>sd.
     sum_bind (get_opt_date data ''end_date'') (\<lambda>ed.
     sum_bind (get_float data ''progress'' 0) (\<lambda>pr.
     sum_bind (get_str_list data ''phases'') (\<lambda>fs.
     sum_bind (get_str data ''notes'' []) (\<lambda>nt.
     sum_bind (get_int data ''priority'' 3) (\<lambda>pri.
     sum_bind (get_opt_float data ''budget'') (\<lambda>bu.
     sum_bind (get_opt_float data ''actual_cost'') (\<lambda>ac.
     sum_bind (get_str data ''manager'' []) (\<lambda>mg.
     sum_bind (get_str_list data ''stakeholders'') (\<lambda>sh.
     sum_bind (get_str_list data ''tags'') (\<lambda>tg.
     sum_bind (get_int data ''risk_level'' 2) (\<lambda>rl.
     Inr ((Project_init uid now nm descr)
            \<lparr>id' := i, created_at := ca, updated_at := ua, project.status := st,
             is_status_manual := man, project.start_date := sd, project.end_date := ed,
             project.progress := pr, phases := fs, project.notes' := nt,
             project.priority := pri, budget := bu, actual_cost := ac, manager := mg,
             stakeholders := sh, project.tags := tg, risk_level := rl\<rparr>))))))))))))))))))))"

text \<open>
  The entities whose date and datetime attributes hold date and datetime objects.
\<close>

definition valid_opt_date :: "date option \<Rightarrow> bool" where
  "valid_opt_date x = (case x of None \<Rightarrow> True | Some d \<Rightarrow> valid_date d)"

definition wf_base :: "'a base_entity_scheme \<Rightarrow> bool" where
  "wf_base e = (valid_datetime (created_at e) \<and> valid_datetime (updated_at e))"

definition wf_task :: "task \<Rightarrow> bool" where
  "wf_task t = (wf_base t \<and> list_all (\<lambda>c. valid_datetime (changed_at c)) (status_history t))"

definition wf_process :: "process \<Rightarrow> bool" where
  "wf_process p =
     (wf_base p \<and> valid_opt_date (process.start_date p) \<and> valid_opt_date (process.end_date p))"

definition wf_phase :: "phase \<Rightarrow> bool" where
  "wf_phase ph = (wf_base ph \<and> valid_opt_date (phase.end_date ph))"

definition wf_project :: "project \<Rightarrow> bool" where
  "wf_project pj =
     (wf_base pj \<and> valid_opt_date (project.start_date pj) \<and> valid_opt_date (project.end_date pj))"

section \<open>Example data\<close>

text \<open>Concrete entities on which the general theorems are instantiated.\<close>

definition ex_now :: datetime where
  "ex_now = \<lparr>year = 2024, month = 1, day = 15, hour = 9, minute = 30, second = 0, microsecond = 0\<rparr>"

definition ex_task :: "string \<Rightarrow> string \<Rightarrow> string option \<Rightarrow> task" where
  "ex_task i st parent =
     \<lparr>id' = i, name = ''task'', description = '''', created_at = ex_now, updated_at = ex_now,
      task.status = st, status_history = [StatusChange_init ''0'' ex_now '''' st ''system''],
      parent_process_id = parent, task.priority = 3, task.estimated_hours = None,
      task.actual_hours = None, task.notes' = '''', task.tags = []\<rparr>"

definition ex_process :: "string \<Rightarrow> string option \<Rightarrow> string list \<Rightarrow> process" where
  "ex_process i parent ts =
     (Process_init i ex_now ''process'' '''' ''alice'')\<lparr>parent_phase_id := parent, tasks := ts\<rparr>"

definition ex_tasks3 :: "task store" where
  "ex_tasks3 = [''t1'' \<mapsto> ex_task ''t1'' COMPLETED (Some ''p1''),
                ''t2'' \<mapsto> ex_task ''t2'' CANNOT_HANDLE (Some ''p1''),
                ''t3'' \<mapsto> ex_task ''t3'' NOT_STARTED (Some ''p1'')]"

definition ex_phase :: "string \<Rightarrow> string option \<Rightarrow> string list \<Rightarrow> real \<Rightarrow> phase" where
  "ex_phase i parent ps v =
     \<lparr>id' = i, name = ''phase'', description = '''', created_at = ex_now, updated_at = ex_now,
      parent_project_id = parent, phase.end_date = None, phase.progress = v, processes = ps,
      phase.notes' = '''', phase.priority = 3, milestone = '''', deliverables = []\<rparr>"

definition ex_project :: "string \<Rightarrow> string list \<Rightarrow> bool \<Rightarrow> project" where
  "ex_project i fs manual =
     \<lparr>id' = i, name = ''project'', description = '''', created_at = ex_now, updated_at = ex_now,
      project.status = NOT_STARTED, is_status_manual = manual, project.start_date = None,
      project.end_date = None, project.progress = 0, phases = fs, project.notes' = '''',
      project.priority = 3, budget = None, actual_cost = None, manager = '''',
      stakeholders = [], project.tags = [], risk_level = 2\<rparr>"


text \<open>Two phases without processes, with the given progress values.\<close>

definition ex_phases2 :: "real \<Rightarrow> real \<Rightarrow> phase store" where
  "ex_phases2 v1 v2 =
     [''f1'' \<mapsto> ex_phase ''f1'' (Some ''j1'') [] v1, ''f2'' \<mapsto> ex_phase ''f2'' (Some ''j1'') [] v2]"

text \<open>
  A hierarchy of one project, one phase, one process and one task; the arguments are the
  project's \<open>is_status_manual\<close> and the process's \<open>is_progress_manual\<close>.
\<close>

definition ex_system :: "bool \<Rightarrow> bool \<Rightarrow> system" where
  "ex_system status_manual progress_manual =
     \<lparr>project_manager = [''j1'' \<mapsto> ex_project ''j1'' [''f1''] status_manual],
      phase_manager = [''f1'' \<mapsto> ex_phase ''f1'' (Some ''j1'') [''p1''] 0],
      process_manager =
        [''p1'' \<mapsto> (ex_process ''p1'' (Some ''f1'') [''t1''])\<lparr>is_progress_manual := progress_manual\<rparr>],
      task_manager = [''t1'' \<mapsto> ex_task ''t1'' NOT_STARTED (Some ''p1'')]\<rparr>"

text \<open>The state after the task of \<open>ex_system\<close> is set to Completed.\<close>

definition ex_after :: "bool \<Rightarrow> bool \<Rightarrow> system" where
  "ex_after status_manual progress_manual =
     snd (update_task_status ''1'' ex_now ''user'' ''t1'' COMPLETED []
            (ex_system status_manual progress_manual))"


text \<open>
  Deadline-approaching notifications for the process \<open>p1\<close>, as successive runs of the
  rule check produce them: they differ in their ids only.
\<close>

definition ex_notification :: "string \<Rightarrow> notification" where
  "ex_notification i =
     \<lparr>notification.id' = i, type' = DEADLINE_APPROACHING, entity_id = ''p1'',
      entity_type = ''Process'', entity_name = ''process'', message = ''deadline'',
      notification.priority = MEDIUM, notification.created_at = ex_now, read_at = None,
      acknowledged_at = None, dismissed_at = None\<rparr>"

text \<open>
  The manager after: a first check adds \<open>n1\<close>; \<open>n1\<close> is dismissed; the next check adds
  \<open>n2\<close>.
\<close>

definition ex_notifications :: notifications where
  "ex_notifications =
     snd (add_notification
       (snd (NotificationManager_dismiss ex_now
          (snd (add_notification [] (ex_notification ''n1''))) ''n1''))
       (ex_notification ''n2''))"

section \<open>Facts about the literals and about rounding\<close>

lemma status_literals_distinct:
  "NOT_STARTED \<noteq> IN_PROGRESS" "NOT_STARTED \<noteq> COMPLETED" "NOT_STARTED \<noteq> CANNOT_HANDLE"
  "IN_PROGRESS \<noteq> NOT_STARTED" "IN_PROGRESS \<noteq> COMPLETED" "IN_PROGRESS \<noteq> CANNOT_HANDLE"
  "COMPLETED \<noteq> NOT_STARTED" "COMPLETED \<noteq> IN_PROGRESS" "COMPLETED \<noteq> CANNOT_HANDLE"
  "CANNOT_HANDLE \<noteq> NOT_STARTED" "CANNOT_HANDLE \<noteq> IN_PROGRESS" "CANNOT_HANDLE \<noteq> COMPLETED"
  by (simp_all add: NOT_STARTED_def IN_PROGRESS_def COMPLETED_def CANNOT_HANDLE_def)

lemma py_round1_0: "py_round1 0 = 0"
  by (simp add: py_round1_def round_half_even_def)

lemma py_round1_bounds:
  assumes "0 \<le> x" and "x \<le> 100"
  shows "0 \<le> py_round1 x \<and> py_round1 x \<le> 100"
proof -
  let ?y = "x * 10"
  have lo: "0 \<le> \<lfloor>?y\<rfloor>" using assms by simp
  have hi: "\<lfloor>?y\<rfloor> \<le> 1000" using assms by (simp add: floor_le_iff)
  have top: "\<lfloor>?y\<rfloor> = 1000 \<Longrightarrow> ?y - of_int \<lfloor>?y\<rfloor> = 0"
  proof -
    assume f: "\<lfloor>?y\<rfloor> = 1000"
    have "of_int \<lfloor>?y\<rfloor> \<le> ?y" by (rule of_int_floor_le)
    with f assms show ?thesis by simp
  qed
  have r0: "0 \<le> round_half_even ?y"
    using lo by (simp add: round_half_even_def Let_def)
  have r1: "round_half_even ?y \<le> 1000"
  proof (cases "\<lfloor>?y\<rfloor> = 1000")
    case True
    with top show ?thesis by (simp add: round_half_even_def Let_def)
  next
    case False
    with hi have "\<lfloor>?y\<rfloor> + 1 \<le> 1000" by linarith
    moreover have "round_half_even ?y \<le> \<lfloor>?y\<rfloor> + 1"
      by (simp add: round_half_even_def Let_def)
    ultimately show ?thesis by linarith
  qed
  have a: "0 \<le> py_round1 x"
    using r0 by (simp add: py_round1_def)
  have "(of_int (round_half_even ?y) :: real) \<le> of_int 1000"
    using r1 by (simp only: of_int_le_iff)
  then have b: "py_round1 x \<le> 100"
    by (simp add: py_round1_def)
  from a b show ?thesis ..
qed

section \<open>Progress of a process from its tasks\<close>

lemma resolved_tasks_nil: "resolved_tasks tm [] = []"
  by (simp add: resolved_tasks_def)

lemma tasks_loop_eq:
  "tasks_loop tm ids (a, c) =
     (a @ filter is_actionable (resolved_tasks tm ids),
      c + length (filter is_completed (filter is_actionable (resolved_tasks tm ids))))"
proof (induction ids arbitrary: a c)
  case Nil
  show ?case by (simp add: resolved_tasks_def)
next
  case (Cons i ids)
  show ?case
  proof (cases "get_task tm i")
    case None
    then show ?thesis
      using Cons.IH [of a c] by (simp add: resolved_tasks_def)
  next
    case (Some t)
    then show ?thesis
      using Cons.IH [of "a @ [t]" "Suc c"] Cons.IH [of "a @ [t]" c] Cons.IH [of a c]
      by (simp add: resolved_tasks_def)
  qed
qed

lemma calculate_progress_from_tasks_eq:
  "calculate_progress_from_tasks p tm =
     (let A = filter is_actionable (resolved_tasks tm (process.tasks p))
      in if A = [] then 0
         else py_round1 (100 * real (length (filter is_completed A)) / real (length A)))"
  by (simp add: calculate_progress_from_tasks_def tasks_loop_eq Let_def mult.commute
      resolved_tasks_nil)

lemma calculated_progress_in_range:
  "0 \<le> calculate_progress_from_tasks p tm \<and> calculate_progress_from_tasks p tm \<le> 100"
proof -
  let ?A = "filter is_actionable (resolved_tasks tm (process.tasks p))"
  let ?c = "length (filter is_completed ?A)"
  show ?thesis
  proof (cases "?A = []")
    case True
    then show ?thesis
      using calculate_progress_from_tasks_eq [of p tm] by (simp add: Let_def)
  next
    case False
    then have pos: "0 < real (length ?A)" by simp
    have "?c \<le> length ?A" by (rule length_filter_le)
    then have "real ?c \<le> real (length ?A)" by (simp only: of_nat_le_iff)
    then have "100 * real ?c / real (length ?A) \<le> 100"
      using pos by (simp add: divide_le_eq)
    moreover have "0 \<le> 100 * real ?c / real (length ?A)" by simp
    ultimately have "0 \<le> py_round1 (100 * real ?c / real (length ?A))
        \<and> py_round1 (100 * real ?c / real (length ?A)) \<le> 100"
      by (intro py_round1_bounds) simp_all
    with False show ?thesis
      using calculate_progress_from_tasks_eq [of p tm] by (simp add: Let_def)
  qed
qed



section \<open>Progress of a phase from its processes\<close>









section \<open>Status and progress of a project from its phases\<close>

lemma calculated_status_valid:
  "ProjectStatus_is_valid (calculate_status_from_phases pj fm)"
  by (simp add: calculate_status_from_phases_def ProjectStatus_is_valid_def Let_def)

text \<open>
  C6.  \<open>calculate_status_from_phases\<close> is NotStarted when the project has no resolvable
  phase; otherwise, over the statuses derived from the progress of its resolvable phases,
  it is Completed if all are Completed, InProgress if any is InProgress, NotStarted if all
  are NotStarted, and InProgress for every other mix.  \<open>update_status_from_phases\<close>
  leaves a project with \<open>is_status_manual\<close> untouched and otherwise sets the status to
  this result.  In particular phases with statuses Completed and NotStarted give
  InProgress.
\<close>

theorem calculate_status_from_phases_rules:
  "(phase_statuses pj fm = [] \<longrightarrow> calculate_status_from_phases pj fm = NOT_STARTED)
   \<and> (phase_statuses pj fm \<noteq> [] \<and> (\<forall>s \<in> set (phase_statuses pj fm). s = COMPLETED)
        \<longrightarrow> calculate_status_from_phases pj fm = COMPLETED)
   \<and> (IN_PROGRESS \<in> set (phase_statuses pj fm)
        \<longrightarrow> calculate_status_from_phases pj fm = IN_PROGRESS)
   \<and> (phase_statuses pj fm \<noteq> [] \<and> (\<forall>s \<in> set (phase_statuses pj fm). s = NOT_STARTED)
        \<longrightarrow> calculate_status_from_phases pj fm = NOT_STARTED)
   \<and> (\<not> (\<forall>s \<in> set (phase_statuses pj fm). s = COMPLETED)
        \<and> \<not> (\<forall>s \<in> set (phase_statuses pj fm). s = NOT_STARTED)
        \<longrightarrow> calculate_status_from_phases pj fm = IN_PROGRESS)
   \<and> (is_status_manual pj \<longrightarrow> snd (update_status_from_phases now pj fm) = pj)
   \<and> (\<not> is_status_manual pj \<longrightarrow>
        project.status (snd (update_status_from_phases now pj fm)) = calculate_status_from_phases pj fm)
   \<and> (phases pj = [i1, i2] \<and> fm i1 = Some f1 \<and> fm i2 = Some f2
        \<and> phase_get_status f1 = COMPLETED \<and> phase_get_status f2 = NOT_STARTED
        \<longrightarrow> calculate_status_from_phases pj fm = IN_PROGRESS)"
proof (intro conjI impI)
  assume "phase_statuses pj fm = []"
  then show "calculate_status_from_phases pj fm = NOT_STARTED"
    by (simp add: calculate_status_from_phases_def)
next
  assume "phase_statuses pj fm \<noteq> [] \<and> (\<forall>s \<in> set (phase_statuses pj fm). s = COMPLETED)"
  moreover from this have "phases pj \<noteq> []"
    by (auto simp: phase_statuses_def)
  ultimately show "calculate_status_from_phases pj fm = COMPLETED"
    by (auto simp: calculate_status_from_phases_def Let_def list_all_iff)
next
  assume a: "IN_PROGRESS \<in> set (phase_statuses pj fm)"
  then have "phases pj \<noteq> []" and "phase_statuses pj fm \<noteq> []"
    by (auto simp: phase_statuses_def)
  moreover have "\<not> (\<forall>s \<in> set (phase_statuses pj fm). s = COMPLETED)"
    using a status_literals_distinct by blast
  ultimately show "calculate_status_from_phases pj fm = IN_PROGRESS"
    using a by (auto simp: calculate_status_from_phases_def Let_def list_all_iff list_ex_iff)
next
  assume a: "phase_statuses pj fm \<noteq> [] \<and> (\<forall>s \<in> set (phase_statuses pj fm). s = NOT_STARTED)"
  then have "phases pj \<noteq> []"
    by (auto simp: phase_statuses_def)
  moreover from a obtain s where "s \<in> set (phase_statuses pj fm)"
    by (cases "phase_statuses pj fm") auto
  with a have "NOT_STARTED \<in> set (phase_statuses pj fm)" by auto
  then have "\<not> (\<forall>s \<in> set (phase_statuses pj fm). s = COMPLETED)"
    using status_literals_distinct by blast
  moreover have "\<not> (\<exists>s \<in> set (phase_statuses pj fm). s = IN_PROGRESS)"
    using a status_literals_distinct by blast
  ultimately show "calculate_status_from_phases pj fm = NOT_STARTED"
    using a by (auto simp: calculate_status_from_phases_def Let_def list_all_iff list_ex_iff)
next
  assume a: "\<not> (\<forall>s \<in> set (phase_statuses pj fm). s = COMPLETED)
        \<and> \<not> (\<forall>s \<in> set (phase_statuses pj fm). s = NOT_STARTED)"
  then have "phase_statuses pj fm \<noteq> []" by auto
  moreover from this have "phases pj \<noteq> []"
    by (auto simp: phase_statuses_def)
  ultimately show "calculate_status_from_phases pj fm = IN_PROGRESS"
    using a by (auto simp: calculate_status_from_phases_def Let_def list_all_iff list_ex_iff)
next
  assume "is_status_manual pj"
  then show "snd (update_status_from_phases now pj fm) = pj"
    by (simp add: update_status_from_phases_def)
next
  assume "\<not> is_status_manual pj"
  then show "project.status (snd (update_status_from_phases now pj fm)) =
      calculate_status_from_phases pj fm"
    by (simp add: update_status_from_phases_def project_set_status_def Let_def
        calculated_status_valid)
next
  assume "phases pj = [i1, i2] \<and> fm i1 = Some f1 \<and> fm i2 = Some f2
        \<and> phase_get_status f1 = COMPLETED \<and> phase_get_status f2 = NOT_STARTED"
  then show "calculate_status_from_phases pj fm = IN_PROGRESS"
    by (simp add: calculate_status_from_phases_def phase_statuses_def get_phase_def
        Let_def status_literals_distinct)
qed

theorem calculate_status_from_phases_rules_witness:
  "calculate_status_from_phases (ex_project ''j1'' [''f1'', ''f2''] False) (ex_phases2 100 0) = IN_PROGRESS
   \<and> project.status (snd (update_status_from_phases ex_now
        (ex_project ''j1'' [''f1'', ''f2''] False) (ex_phases2 100 0))) = IN_PROGRESS
   \<and> project.status (snd (update_status_from_phases ex_now
        (ex_project ''j1'' [''f1'', ''f2''] True) (ex_phases2 100 0))) = NOT_STARTED
   \<and> calculate_status_from_phases (ex_project ''j1'' [''f1'', ''f2''] False) (ex_phases2 100 100) = COMPLETED
   \<and> calculate_status_from_phases (ex_project ''j1'' [''f1'', ''f2''] False) (ex_phases2 0 0) = NOT_STARTED
   \<and> calculate_status_from_phases (ex_project ''j1'' [''f1'', ''f2''] False) (ex_phases2 0 40) = IN_PROGRESS
   \<and> calculate_status_from_phases (ex_project ''j1'' [''f9''] False) (ex_phases2 0 40) = NOT_STARTED"
proof -
  let ?pj = "ex_project ''j1'' [''f1'', ''f2''] False"
  let ?pm = "ex_project ''j1'' [''f1'', ''f2''] True"
  have sts: "phase_statuses (ex_project ''j1'' [''f1'', ''f2''] False) (ex_phases2 v1 v2) =
      [phase_get_status (ex_phase ''f1'' (Some ''j1'') [] v1),
       phase_get_status (ex_phase ''f2'' (Some ''j1'') [] v2)]" for v1 v2
    by (simp add: phase_statuses_def get_phase_def ex_project_def ex_phases2_def)
  have st: "phase_get_status (ex_phase i q [] 100) = COMPLETED"
    "phase_get_status (ex_phase i q [] 0) = NOT_STARTED"
    "phase_get_status (ex_phase i q [] 40) = IN_PROGRESS" for i q
    by (simp_all add: phase_get_status_def ex_phase_def)
  have a: "calculate_status_from_phases ?pj (ex_phases2 100 0) = IN_PROGRESS"
    using calculate_status_from_phases_rules
      [of ?pj "ex_phases2 100 0" ex_now "''f1''" "''f2''"
          "ex_phase ''f1'' (Some ''j1'') [] 100" "ex_phase ''f2'' (Some ''j1'') [] 0"]
    by (simp add: st ex_project_def ex_phases2_def)
  have b: "project.status (snd (update_status_from_phases ex_now ?pj (ex_phases2 100 0))) = IN_PROGRESS"
    using calculate_status_from_phases_rules [of ?pj "ex_phases2 100 0" ex_now] a
    by (simp add: ex_project_def)
  have c: "project.status (snd (update_status_from_phases ex_now ?pm (ex_phases2 100 0))) = NOT_STARTED"
    using calculate_status_from_phases_rules [of ?pm "ex_phases2 100 0" ex_now]
    by (simp add: ex_project_def)
  have d: "calculate_status_from_phases ?pj (ex_phases2 100 100) = COMPLETED"
    using calculate_status_from_phases_rules [of ?pj "ex_phases2 100 100" ex_now]
    by (simp add: sts st)
  have e: "calculate_status_from_phases ?pj (ex_phases2 0 0) = NOT_STARTED"
    using calculate_status_from_phases_rules [of ?pj "ex_phases2 0 0" ex_now]
    by (simp add: sts st status_literals_distinct)
  have f: "calculate_status_from_phases ?pj (ex_phases2 0 40) = IN_PROGRESS"
    using calculate_status_from_phases_rules [of ?pj "ex_phases2 0 40" ex_now]
    by (simp add: sts st)
  have g: "calculate_status_from_phases (ex_project ''j1'' [''f9''] False) (ex_phases2 0 40) = NOT_STARTED"
    using calculate_status_from_phases_rules [of "ex_project ''j1'' [''f9''] False" "ex_phases2 0 40" ex_now]
    by (simp add: phase_statuses_def get_phase_def ex_project_def ex_phases2_def)
  from a b c d e f g show ?thesis by simp
qed




text \<open>
  C3.  The claim requires \<open>calculate_progress_from_phases\<close> to return a value for every
  phase shape, also for phases whose process lists are not empty.  The code passes
  \<^verbatim>\<open>None\<close> as the process manager to \<^verbatim>\<open>phase.get_date_range\<close>, which dereferences
  it for each listed process: for a project whose single phase lists one process the call
  raises \<^verbatim>\<open>AttributeError\<close> instead of returning the phase's progress 50.
\<close>

theorem calculate_progress_from_phases_raises_on_listed_process:
  "calculate_progress_from_phases (ex_project ''j1'' [''f1''] False)
     [''f1'' \<mapsto> ex_phase ''f1'' (Some ''j1'') [''p1''] 50] = Inl AttributeError"
  by (simp add: calculate_progress_from_phases_def get_phase_def get_date_range_def
      ex_project_def ex_phase_def)

section \<open>The orchestrator's cascade\<close>



lemma update_project_frame:
  "phase_manager (snd (update_project now k s)) = phase_manager s"
  "process_manager (snd (update_project now k s)) = process_manager s"
  "task_manager (snd (update_project now k s)) = task_manager s"
  by (simp_all add: update_project_def Let_def split: option.split sum.split prod.split)





lemma calculate_progress_from_tasks_cong:
  "process.tasks a = process.tasks b \<Longrightarrow>
     calculate_progress_from_tasks a tm = calculate_progress_from_tasks b tm"
  by (simp add: calculate_progress_from_tasks_def split: prod.split)


lemma update_phase_frame:
  "process_manager (snd (update_phase now k s)) = process_manager s"
  "task_manager (snd (update_phase now k s)) = task_manager s"
  by (simp_all add: update_phase_def PhaseManager_update_phase_def Let_def update_project_frame
      split: option.split prod.split)


lemma update_progress_from_tasks_eq:
  "update_progress_from_tasks now p tm =
     (if \<not> is_progress_manual p
      then (True, p\<lparr>process.progress := calculate_progress_from_tasks p tm,
                     is_progress_manual := False, updated_at := now\<rparr>)
      else (True, p))"
  using calculated_progress_in_range [of p tm]
  by (simp add: update_progress_from_tasks_def set_progress_def)

lemma update_progress_from_tasks_fields:
  "process.tasks (snd (update_progress_from_tasks now p tm)) = process.tasks p"
  "parent_phase_id (snd (update_progress_from_tasks now p tm)) = parent_phase_id p"
  "id' (snd (update_progress_from_tasks now p tm)) = id' p"
  "is_progress_manual (snd (update_progress_from_tasks now p tm)) = is_progress_manual p"
  "\<not> is_progress_manual p \<Longrightarrow>
     process.progress (snd (update_progress_from_tasks now p tm)) = calculate_progress_from_tasks p tm"
  by (simp_all add: update_progress_from_tasks_eq)






lemma update_process_store:
  assumes "process_manager s k = Some p"
    and "p1 = (if \<not> is_progress_manual p
               then snd (update_progress_from_tasks now p (task_manager s)) else p)"
    and "ProcessManager_update_process now ((process_manager s)(k \<mapsto> p1)) p1 = (success, p2, pm)"
  shows "process_manager (snd (update_process now k s)) = pm(k \<mapsto> p2)"
proof -
  let ?s1 = "s\<lparr>process_manager := pm(k \<mapsto> p2)\<rparr>"
  have "snd (update_process now k s) = ?s1
      \<or> (\<exists>fk. snd (update_process now k s) = snd (update_phase now fk ?s1))"
    using assms(1) assms(3) [unfolded assms(2)]
    unfolding update_process_def assms(2)
    by (auto simp: Let_def split: option.split simp del: fun_upd_apply)
  then show ?thesis
    by (auto simp: update_phase_frame)
qed


lemma ProcessManager_update_process_result:
  assumes "ProcessManager_update_process now pm0 p1 = (success, p2, pm)"
  shows "(success \<longrightarrow> p2 = p1\<lparr>updated_at := now\<rparr> \<and> pm = pm0(id' p1 \<mapsto> p2))
       \<and> (\<not> success \<longrightarrow> p2 = p1 \<and> pm = pm0)
       \<and> (success \<longleftrightarrow> process_validate p1 \<and> id' p1 \<in> dom pm0)"
  using assms by (auto simp: ProcessManager_update_process_def Let_def split: if_splits)

lemma update_process_slot:
  assumes "process_manager s k = Some p"
  shows "\<exists>p'. process_manager (snd (update_process now k s)) k = Some p'
           \<and> process.tasks p' = process.tasks p
           \<and> is_progress_manual p' = is_progress_manual p
           \<and> (is_progress_manual p \<longrightarrow> process.progress p' = process.progress p)
           \<and> (\<not> is_progress_manual p \<longrightarrow>
                process.progress p' = calculate_progress_from_tasks p (task_manager s))"
proof -
  define p1 where "p1 = (if \<not> is_progress_manual p
               then snd (update_progress_from_tasks now p (task_manager s)) else p)"
  obtain success p2 pm where
    upd: "ProcessManager_update_process now ((process_manager s)(k \<mapsto> p1)) p1 = (success, p2, pm)"
    by (cases "ProcessManager_update_process now ((process_manager s)(k \<mapsto> p1)) p1") auto
  have slot: "process_manager (snd (update_process now k s)) k = Some p2"
    using update_process_store [OF assms p1_def upd] by simp
  have p2: "p2 = p1 \<or> p2 = p1\<lparr>updated_at := now\<rparr>"
    using ProcessManager_update_process_result [OF upd] by (cases success) simp_all
  have f1: "process.tasks p1 = process.tasks p" "is_progress_manual p1 = is_progress_manual p"
    "is_progress_manual p \<Longrightarrow> process.progress p1 = process.progress p"
    "\<not> is_progress_manual p \<Longrightarrow>
       process.progress p1 = calculate_progress_from_tasks p (task_manager s)"
    by (simp_all add: p1_def update_progress_from_tasks_fields)
  from p2 show ?thesis
  proof
    assume "p2 = p1"
    with slot f1 show ?thesis by simp
  next
    assume "p2 = p1\<lparr>updated_at := now\<rparr>"
    with slot f1 show ?thesis by simp
  qed
qed













lemma task_set_status_parent:
  "parent_process_id (snd (task_set_status cid now t new user c)) = parent_process_id t"
  by (simp add: task_set_status_def add_status_change_def Let_def)

lemma update_task_status_unfold:
  assumes "task_manager s tid = Some t"
    and "fst (update_task_status cid now user tid new c s) = Some True"
    and "parent_process_id t = Some pk" and "pk \<noteq> []" and "process_manager s pk = Some p"
  shows "snd (update_task_status cid now user tid new c s) =
     snd (update_process now pk
       (s\<lparr>task_manager := (task_manager s)(tid \<mapsto> snd (task_set_status cid now t new user c))\<rparr>))"
proof -
  obtain success t1 where ts: "task_set_status cid now t new user c = (success, t1)"
    by (cases "task_set_status cid now t new user c") auto
  have par: "parent_process_id t1 = Some pk"
    using task_set_status_parent [of cid now t new user c] ts assms(3) by simp
  have success: success
    using assms(1,2) ts by (simp add: update_task_status_def get_task_def Let_def split: if_splits)
  show ?thesis
    using assms(1,4,5) ts par success
    by (simp add: update_task_status_def get_task_def cascade_update_progress_def get_process_def
        Let_def del: fun_upd_apply)
qed


lemma ex_task_set_status:
  "task_set_status ''1'' ex_now (ex_task ''t1'' NOT_STARTED (Some ''p1'')) COMPLETED ''user'' [] =
     (True, (ex_task ''t1'' NOT_STARTED (Some ''p1''))
        \<lparr>task.status := COMPLETED,
         status_history := [StatusChange_init ''0'' ex_now [] NOT_STARTED ''system'',
                            StatusChange_init ''1'' ex_now NOT_STARTED COMPLETED ''user'']\<rparr>)"
  by (simp add: task_set_status_def TaskStatus_is_valid_def status_literals_distinct
      ex_task_def add_status_change_def Let_def)

lemma ex_system_facts:
  "task_manager (ex_system a b) ''t1'' = Some (ex_task ''t1'' NOT_STARTED (Some ''p1''))"
  "parent_process_id (ex_task ''t1'' NOT_STARTED (Some ''p1'')) = Some ''p1''"
  "process_manager (ex_system a b) ''p1'' =
     Some ((ex_process ''p1'' (Some ''f1'') [''t1''])\<lparr>is_progress_manual := b\<rparr>)"
  "parent_phase_id ((ex_process ''p1'' (Some ''f1'') [''t1''])\<lparr>is_progress_manual := b\<rparr>) = Some ''f1''"
  "id' ((ex_process ''p1'' (Some ''f1'') [''t1''])\<lparr>is_progress_manual := b\<rparr>) = ''p1''"
  "is_progress_manual ((ex_process ''p1'' (Some ''f1'') [''t1''])\<lparr>is_progress_manual := b\<rparr>) = b"
  "process.progress ((ex_process ''p1'' (Some ''f1'') [''t1''])\<lparr>is_progress_manual := b\<rparr>) = 0"
  "phase_manager (ex_system a b) ''f1'' = Some (ex_phase ''f1'' (Some ''j1'') [''p1''] 0)"
  "parent_project_id (ex_phase ''f1'' (Some ''j1'') [''p1''] 0) = Some ''j1''"
  "processes (ex_phase ''f1'' (Some ''j1'') [''p1''] 0) = [''p1'']"
  "project_manager (ex_system a b) ''j1'' = Some (ex_project ''j1'' [''f1''] a)"
  "is_status_manual (ex_project ''j1'' [''f1''] a) = a"
  "project.progress (ex_project ''j1'' [''f1''] a) = 0"
  "phases (ex_project ''j1'' [''f1''] a) = [''f1'']"
  "''p1'' \<in> dom (process_manager (ex_system a b))"
  by (simp_all add: ex_system_def ex_task_def ex_process_def Process_init_def ex_phase_def
      ex_project_def)


lemma ex_returns_true:
  "fst (update_task_status ''1'' ex_now ''user'' ''t1'' COMPLETED [] (ex_system a b)) = Some True"
  by (simp add: update_task_status_def get_task_def ex_system_facts ex_task_set_status)





section \<open>The orchestrator's update of a project\<close>








section \<open>The default of the manual-progress flag\<close>

lemma apply_call_keeps_manual:
  assumes "\<not> selects_automatic c" and "is_progress_manual p"
  shows "is_progress_manual (apply_call now tm c p)"
  using assms
  by (cases c)
     (simp_all add: set_assignee_def set_dates_def set_progress_def update_progress_from_tasks_def
        add_task_def remove_task_def set_estimated_hours_def set_actual_hours_def
        split: option.split)

lemma apply_calls_keep_manual:
  assumes "list_all (\<lambda>c. \<not> selects_automatic c) cs" and "is_progress_manual p"
  shows "is_progress_manual (apply_calls now tm cs p)"
  using assms
proof (induction cs arbitrary: p)
  case Nil
  then show ?case by simp
next
  case (Cons c cs)
  from Cons.prems have "is_progress_manual (apply_call now tm c p)"
    by (simp add: apply_call_keeps_manual)
  with Cons show ?case by simp
qed

text \<open>
  C10.  Every process made by the \<open>Process\<close> constructor, and hence by
  \<open>ProcessManager.create_process\<close>, has \<open>is_progress_manual\<close> true and progress 0.
  For a process with the flag set, \<open>update_progress_from_tasks\<close> returns the process
  unchanged, and the task-status cascade of the orchestrator leaves its progress at its
  value.  The flag stays set under every sequence of calls of the process's mutating
  methods that contains no \<open>set_progress(v, is_manual=False)\<close>; after such a call with
  \<open>v\<close> between 0 and 100 the flag is cleared and \<open>update_progress_from_tasks\<close> sets
  the progress to \<open>calculate_progress_from_tasks\<close>.
\<close>

theorem process_manual_by_default:
  "is_progress_manual (Process_init uid now nm descr asg)
   \<and> process.progress (Process_init uid now nm descr asg) = 0
   \<and> is_progress_manual (fst (ProcessManager_create_process uid now pm nm asg descr phase_id))
   \<and> process.progress (fst (ProcessManager_create_process uid now pm nm asg descr phase_id)) = 0
   \<and> (is_progress_manual p \<longrightarrow> update_progress_from_tasks now p tm = (True, p))
   \<and> (list_all (\<lambda>c. \<not> selects_automatic c) cs \<longrightarrow>
        is_progress_manual (apply_calls now tm cs (Process_init uid now nm descr asg)))
   \<and> (fst (update_task_status cid now user tid new c s) = Some True
        \<and> task_manager s tid = Some t \<and> parent_process_id t = Some pk \<and> pk \<noteq> []
        \<and> process_manager s pk = Some p \<and> is_progress_manual p \<longrightarrow>
        map_option process.progress
          (process_manager (snd (update_task_status cid now user tid new c s)) pk) =
        Some (process.progress p))
   \<and> (0 \<le> v \<and> v \<le> 100 \<longrightarrow>
        \<not> is_progress_manual (snd (set_progress now p v False))
        \<and> process.progress (snd (update_progress_from_tasks now (snd (set_progress now p v False)) tm)) =
            calculate_progress_from_tasks p tm)"
proof (intro conjI impI)
  show "is_progress_manual (Process_init uid now nm descr asg)"
    and "process.progress (Process_init uid now nm descr asg) = 0"
    by (simp_all add: Process_init_def)
  show "is_progress_manual (fst (ProcessManager_create_process uid now pm nm asg descr phase_id))"
    and "process.progress (fst (ProcessManager_create_process uid now pm nm asg descr phase_id)) = 0"
    by (simp_all add: ProcessManager_create_process_def Process_init_def Let_def)
next
  assume "is_progress_manual p"
  then show "update_progress_from_tasks now p tm = (True, p)"
    by (simp add: update_progress_from_tasks_def)
next
  assume "list_all (\<lambda>c. \<not> selects_automatic c) cs"
  then show "is_progress_manual (apply_calls now tm cs (Process_init uid now nm descr asg))"
    by (rule apply_calls_keep_manual) (simp add: Process_init_def)
next
  assume h: "fst (update_task_status cid now user tid new c s) = Some True
        \<and> task_manager s tid = Some t \<and> parent_process_id t = Some pk \<and> pk \<noteq> []
        \<and> process_manager s pk = Some p \<and> is_progress_manual p"
  define s1 where
    "s1 = s\<lparr>task_manager := (task_manager s)(tid \<mapsto> snd (task_set_status cid now t new user c))\<rparr>"
  from h have run: "snd (update_task_status cid now user tid new c s) = snd (update_process now pk s1)"
    unfolding s1_def by (intro update_task_status_unfold) simp_all
  from h have p1: "process_manager s1 pk = Some p" by (simp add: s1_def)
  from h update_process_slot [OF p1, of now]
  show "map_option process.progress
          (process_manager (snd (update_task_status cid now user tid new c s)) pk) =
        Some (process.progress p)"
    unfolding run by auto
next
  assume r: "0 \<le> v \<and> v \<le> 100"
  then show "\<not> is_progress_manual (snd (set_progress now p v False))"
    by (simp add: set_progress_def)
  have t: "process.tasks (snd (set_progress now p v False)) = process.tasks p"
    by (simp add: set_progress_def)
  from r have "process.progress (snd (update_progress_from_tasks now (snd (set_progress now p v False)) tm)) =
      calculate_progress_from_tasks (snd (set_progress now p v False)) tm"
    by (intro update_progress_from_tasks_fields) (simp add: set_progress_def)
  with calculate_progress_from_tasks_cong [OF t, of tm]
  show "process.progress (snd (update_progress_from_tasks now (snd (set_progress now p v False)) tm)) =
            calculate_progress_from_tasks p tm"
    by simp
qed

theorem process_manual_by_default_witness:
  "update_progress_from_tasks ex_now (Process_init ''p1'' ex_now ''process'' [] ''alice'') ex_tasks3 =
     (True, Process_init ''p1'' ex_now ''process'' [] ''alice'')
   \<and> is_progress_manual (apply_calls ex_now ex_tasks3
        [AddTask ''t1'', SetProgress 40 True, UpdateProgressFromTasks]
        (Process_init ''p1'' ex_now ''process'' [] ''alice''))
   \<and> map_option process.progress (process_manager (ex_after False True) ''p1'') = Some 0
   \<and> process.progress (snd (update_progress_from_tasks ex_now
        (snd (set_progress ex_now (ex_process ''p1'' None [''t1'', ''t2'', ''t3'']) 0 False)) ex_tasks3)) = 50"
proof -
  let ?p0 = "Process_init ''p1'' ex_now ''process'' [] ''alice''"
  let ?p3 = "ex_process ''p1'' None [''t1'', ''t2'', ''t3'']"
  have m: "is_progress_manual ?p0" by (simp add: Process_init_def)
  have a: "update_progress_from_tasks ex_now ?p0 ex_tasks3 = (True, ?p0)"
    using process_manual_by_default [where p = ?p0 and now = ex_now and tm = ex_tasks3] m by blast
  have b: "is_progress_manual (apply_calls ex_now ex_tasks3
        [AddTask ''t1'', SetProgress 40 True, UpdateProgressFromTasks] ?p0)"
    using process_manual_by_default
      [where cs = "[AddTask ''t1'', SetProgress 40 True, UpdateProgressFromTasks]"
         and now = ex_now and tm = ex_tasks3 and uid = "''p1''" and nm = "''process''"
         and descr = "[]" and asg = "''alice''"]
    by simp
  have c: "map_option process.progress (process_manager (ex_after False True) ''p1'') = Some 0"
    using process_manual_by_default
      [where cid = "''1''" and now = ex_now and user = "''user''" and tid = "''t1''"
         and new = COMPLETED and c = "[]" and s = "ex_system False True"
         and t = "ex_task ''t1'' NOT_STARTED (Some ''p1'')" and pk = "''p1''"
         and p = "(ex_process ''p1'' (Some ''f1'') [''t1''])\<lparr>is_progress_manual := True\<rparr>"]
      ex_returns_true [of False True]
    by (simp add: ex_system_facts ex_after_def)
  have v: "calculate_progress_from_tasks ?p3 ex_tasks3 = 50"
    by (simp add: calculate_progress_from_tasks_def get_task_def is_actionable_def
        is_cannot_handle_def is_completed_def status_literals_distinct py_round1_def
        round_half_even_def ex_process_def ex_tasks3_def ex_task_def)
  have d: "process.progress (snd (update_progress_from_tasks ex_now
        (snd (set_progress ex_now ?p3 0 False)) ex_tasks3)) = 50"
    using process_manual_by_default [where v = 0 and now = ex_now and p = ?p3 and tm = ex_tasks3] v
    by simp
  from a b c d show ?thesis by simp
qed

section \<open>Deduplication of notifications\<close>

lemma ex_notification_fields:
  "notification.id' (ex_notification i) = i"
  "entity_id (ex_notification i) = ''p1''"
  "type' (ex_notification i) = DEADLINE_APPROACHING"
  "is_active (ex_notification i)"
  "\<not> is_active ((ex_notification i)\<lparr>dismissed_at := Some t, read_at := Some t\<rparr>)"
  "dismiss t (ex_notification i) = (ex_notification i)\<lparr>dismissed_at := Some t, read_at := Some t\<rparr>"
  by (simp_all add: ex_notification_def is_active_def is_acknowledged_def is_dismissed_def
      dismiss_def mark_as_read_def)

lemma ex_notifications_eq:
  "ex_notifications =
     [(''n1'', (ex_notification ''n1'')\<lparr>dismissed_at := Some ex_now, read_at := Some ex_now\<rparr>),
      (''n2'', ex_notification ''n2'')]"
  by (simp add: ex_notifications_def add_notification_def find_existing_notification_def
      NotificationManager_dismiss_def get_notification_def ex_notification_fields)

lemma dedup_three_checks:
  "add_notification [] (ex_notification ''n1'') = (True, [(''n1'', ex_notification ''n1'')])
   \<and> add_notification [(''n1'', ex_notification ''n1'')] (ex_notification ''n2'') =
        (False, [(''n1'', ex_notification ''n1'')])
   \<and> add_notification
        (snd (NotificationManager_dismiss ex_now [(''n1'', ex_notification ''n1'')] ''n1''))
        (ex_notification ''n3'') =
        (True, [(''n1'', (ex_notification ''n1'')\<lparr>dismissed_at := Some ex_now, read_at := Some ex_now\<rparr>),
                (''n3'', ex_notification ''n3'')])"
  by (simp add: add_notification_def find_existing_notification_def
      NotificationManager_dismiss_def get_notification_def ex_notification_fields)

text \<open>
  C7.  The claim requires \<open>add_notification\<close> to reject a notification whenever an
  active one with the same entity id and type exists.  \<open>find_existing_notification\<close>
  returns the first notification of the pair in dictionary order, whatever its state, and
  only that one is tested: once an earlier notification of the pair has been dismissed,
  every later one is inserted although \<open>n2\<close> is stored and active.
\<close>

theorem add_notification_inserts_beside_active:
  "get_notification ex_notifications ''n2'' = Some (ex_notification ''n2'')
   \<and> is_active (ex_notification ''n2'')
   \<and> entity_id (ex_notification ''n2'') = entity_id (ex_notification ''n3'')
   \<and> type' (ex_notification ''n2'') = type' (ex_notification ''n3'')
   \<and> add_notification ex_notifications (ex_notification ''n3'') =
        (True, ex_notifications @ [(''n3'', ex_notification ''n3'')])"
  by (simp add: ex_notifications_eq add_notification_def find_existing_notification_def
      get_notification_def ex_notification_fields)

text \<open>
  C8.  The state reached from the empty manager by add \<open>n1\<close>, dismiss \<open>n1\<close>, add
  \<open>n2\<close>, add \<open>n3\<close> holds two active notifications for one pair of entity id and
  type: the invariant of the claim does not hold in every reachable state.
\<close>

theorem reachable_two_active:
  "reachable (snd (add_notification ex_notifications (ex_notification ''n3'')))
   \<and> \<not> at_most_one_active (snd (add_notification ex_notifications (ex_notification ''n3'')))"
proof
  show "reachable (snd (add_notification ex_notifications (ex_notification ''n3'')))"
    unfolding ex_notifications_def by (intro reachable.intros)
  have "snd (add_notification ex_notifications (ex_notification ''n3'')) =
      [(''n1'', (ex_notification ''n1'')\<lparr>dismissed_at := Some ex_now, read_at := Some ex_now\<rparr>),
       (''n2'', ex_notification ''n2''), (''n3'', ex_notification ''n3'')]"
    by (simp add: ex_notifications_eq add_notification_def find_existing_notification_def
        ex_notification_fields)
  then show "\<not> at_most_one_active (snd (add_notification ex_notifications (ex_notification ''n3'')))"
    by (simp add: at_most_one_active_def active_pairs_def ex_notification_fields)
qed

section \<open>Round trip of the serialization\<close>

lemma digit_facts:
  assumes "n < 10"
  shows "is_digit (digit n)" and "digit_val (digit n) = n"
  using assms by (simp_all add: is_digit_def digit_val_def digit_def)

lemma pad2_digits: "n < 100 \<Longrightarrow> list_all is_digit (pad2 n)"
  by (simp add: pad2_def digit_facts)

lemma foldl_pad2:
  "n < 100 \<Longrightarrow> foldl (\<lambda>a c. 10 * a + digit_val c) a (pad2 n) = 100 * a + n"
  by (simp add: pad2_def digit_facts)

lemma parse_pad2: "n < 100 \<Longrightarrow> parse_digits (pad2 n) = Some n"
  using foldl_pad2 [of n 0] by (simp add: parse_digits_def pad2_digits) (simp add: pad2_def)

lemma parse_pad4:
  assumes "n < 10000"
  shows "parse_digits (pad4 n) = Some n"
proof -
  have h: "n div 100 < 100" and l: "n mod 100 < 100" using assms by simp_all
  have "foldl (\<lambda>a c. 10 * a + digit_val c) 0 (pad4 n) = 100 * (n div 100) + n mod 100"
    by (simp add: pad4_def foldl_pad2 [OF h] foldl_pad2 [OF l])
  moreover have "list_all is_digit (pad4 n)" and "pad4 n \<noteq> []"
    by (simp_all add: pad4_def pad2_digits [OF h] pad2_digits [OF l]) (simp add: pad2_def)
  ultimately show ?thesis by (simp add: parse_digits_def)
qed

lemma parse_pad6:
  assumes "n < 1000000"
  shows "parse_digits (pad6 n) = Some n"
proof -
  have h: "n div 10000 < 100" and m: "n div 100 mod 100 < 100" and l: "n mod 100 < 100"
    using assms by simp_all
  have e: "100 * (100 * (n div 10000) + n div 100 mod 100) + n mod 100 = n"
  proof -
    have "100 * (n div 10000) + n div 100 mod 100 = n div 100"
      using div_mult_mod_eq [of "n div 100" 100] by (simp add: div_mult2_eq [symmetric])
    then show ?thesis by simp
  qed
  have "foldl (\<lambda>a c. 10 * a + digit_val c) 0 (pad6 n) = n"
    using e by (simp add: pad6_def foldl_pad2 [OF h] foldl_pad2 [OF m] foldl_pad2 [OF l])
  moreover have "list_all is_digit (pad6 n)" and "pad6 n \<noteq> []"
    by (simp_all add: pad6_def pad2_digits [OF h] pad2_digits [OF m] pad2_digits [OF l])
       (simp add: pad2_def)
  ultimately show ?thesis by (simp add: parse_digits_def)
qed


lemma length_pad [simp]:
  "length (pad2 n) = 2" "length (pad4 n) = 4" "length (pad6 n) = 6"
  by (simp_all add: pad2_def pad4_def pad6_def)

lemma parse_date_text:
  assumes "valid_date \<lparr>year = y, month = m, day = d\<rparr>"
  shows "parse_date_part (pad4 y @ ''-'' @ pad2 m @ ''-'' @ pad2 d) =
     Some \<lparr>year = y, month = m, day = d\<rparr>"
proof -
  have y: "y < 10000" and m: "m < 100" and d: "d < 100"
    using assms by (auto simp: valid_date_def days_in_month_def split: if_splits)
  show ?thesis
    using assms
    by (simp add: parse_date_part_def nth_append parse_pad4 [OF y] parse_pad2 [OF m] parse_pad2 [OF d])
qed

lemma date_roundtrip:
  assumes "valid_date (d :: date)"
  shows "date_fromisoformat (date_isoformat d) = Inr d"
proof -
  have "valid_date \<lparr>year = year d, month = month d, day = day d\<rparr>"
    using assms by (simp add: valid_date_def)
  from parse_date_text [OF this] show ?thesis
    by (simp add: date_fromisoformat_def date_isoformat_def)
qed

lemma parse_time_text:
  assumes "h < 24" and "mi < 60" and "sec < 60" and "us < 1000000"
  shows "parse_time_part (pad2 h @ '':'' @ pad2 mi @ '':'' @ pad2 sec
           @ (if us \<noteq> 0 then ''.'' @ pad6 us else [])) = Some (h, mi, sec, us)"
proof -
  have h: "h < 100" and m: "mi < 100" and s: "sec < 100" using assms by simp_all
  show ?thesis
    using assms
    by (simp add: parse_time_part_def nth_append parse_pad2 [OF h] parse_pad2 [OF m]
        parse_pad2 [OF s] parse_pad6)
qed

lemma datetime_roundtrip:
  assumes "valid_datetime t"
  shows "datetime_fromisoformat (datetime_isoformat t) = Inr t"
proof -
  let ?dp = "pad4 (year t) @ ''-'' @ pad2 (month t) @ ''-'' @ pad2 (day t)"
  let ?tp = "pad2 (hour t) @ '':'' @ pad2 (minute t) @ '':'' @ pad2 (second t)
           @ (if microsecond t \<noteq> 0 then ''.'' @ pad6 (microsecond t) else [])"
  have iso: "datetime_isoformat t = ?dp @ ''T'' @ ?tp"
    by (simp add: datetime_isoformat_def)
  have len: "length ?dp = 10" by simp
  have tk: "take 10 (?dp @ ''T'' @ ?tp) = ?dp"
    using len by simp
  have dr: "drop 11 (?dp @ ''T'' @ ?tp) = ?tp"
    using len by simp
  have ln: "length (?dp @ ''T'' @ ?tp) \<noteq> 10"
    by simp
  have vd: "valid_date \<lparr>year = year t, month = month t, day = day t\<rparr>"
    using assms by (simp add: valid_datetime_def valid_date_def)
  have tm: "parse_time_part ?tp = Some (hour t, minute t, second t, microsecond t)"
    using assms by (intro parse_time_text) (simp_all add: valid_datetime_def)
  show ?thesis
    unfolding iso datetime_fromisoformat_def tk dr
    using ln parse_date_text [OF vd] tm by simp
qed

lemma str_list_roundtrip: "sum_mapM as_str (map PStr xs) = Inr xs"
  by (induction xs) (simp_all add: as_str_def)

lemma StatusChange_roundtrip:
  assumes "valid_datetime (changed_at c)"
  shows "StatusChange_from_dict cid now (StatusChange_to_dict c) = Inr c"
  using assms
  by (simp add: StatusChange_from_dict_def StatusChange_to_dict_def sum_bind_def item_str_def
      item_datetime_def getitem_def get_str_def get_default_def as_str_def datetime_roundtrip
      StatusChange_init_def)

lemma history_roundtrip:
  assumes "list_all (\<lambda>c. valid_datetime (changed_at c)) h"
  shows "sum_mapM (\<lambda>v. sum_bind (as_dict v) (StatusChange_from_dict cid now))
           (map (\<lambda>c. PDict (StatusChange_to_dict c)) h) = Inr h"
  using assms
  by (induction h) (simp_all add: as_dict_def sum_bind_def StatusChange_roundtrip)

lemma opt_roundtrips:
  "as_opt_str (opt_str x) = Inr x"
  "as_opt_float (opt_float y) = Inr y"
  by (simp_all add: as_opt_str_def opt_str_def as_opt_float_def opt_float_def split: option.split)

lemma Task_to_dict_eq:
  "Task_to_dict t =
     [(''id'', PStr (id' t)), (''name'', PStr (name t)), (''description'', PStr (description t)),
      (''created_at'', PStr (datetime_isoformat (created_at t))),
      (''updated_at'', PStr (datetime_isoformat (updated_at t))),
      (''status'', PStr (task.status t)),
      (''status_history'', PList (map (\<lambda>c. PDict (StatusChange_to_dict c)) (status_history t))),
      (''parent_process_id'', opt_str (parent_process_id t)),
      (''priority'', PInt (task.priority t)),
      (''estimated_hours'', opt_float (task.estimated_hours t)),
      (''actual_hours'', opt_float (task.actual_hours t)),
      (''notes'', PStr (task.notes' t)),
      (''tags'', PList (map PStr (task.tags t)))]"
  by (simp add: Task_to_dict_def base_dict_def py_update_def)

lemma Task_roundtrip:
  assumes "wf_task t"
  shows "Task_from_dict uid cid now (Task_to_dict t) = Inr t"
proof -
  have ca: "valid_datetime (created_at t)" and ua: "valid_datetime (updated_at t)"
    and h: "list_all (\<lambda>c. valid_datetime (changed_at c)) (status_history t)"
    using assms by (simp_all add: wf_task_def wf_base_def)
  show ?thesis
    unfolding Task_to_dict_eq
    by (simp add: Task_from_dict_def sum_bind_def item_str_def item_datetime_def getitem_def
        get_str_def get_opt_str_def get_int_def get_opt_float_def get_str_list_def
        get_default_def as_str_def as_int_def as_list_def as_str_list_def
        datetime_roundtrip [OF ca] datetime_roundtrip [OF ua]
        history_roundtrip [OF h, unfolded sum_bind_def]
        str_list_roundtrip opt_roundtrips Task_init_def add_status_change_def)
qed


lemma date_isoformat_nonempty: "date_isoformat d \<noteq> []"
  by (simp add: date_isoformat_def pad4_def pad2_def)

lemma get_opt_date_roundtrip:
  assumes "map_of data k = Some (opt_date x)" and "valid_opt_date x"
  shows "get_opt_date data k = Inr x"
proof (cases x)
  case None
  with assms show ?thesis
    by (simp add: get_opt_date_def get_default_def opt_date_def)
next
  case (Some d)
  with assms have "valid_date d" by (simp add: valid_opt_date_def)
  with assms Some show ?thesis
    by (simp add: get_opt_date_def get_default_def opt_date_def date_isoformat_nonempty
        item_str_def getitem_def sum_bind_def as_str_def date_roundtrip)
qed

lemma Process_to_dict_eq:
  "Process_to_dict p =
     [(''id'', PStr (id' p)), (''name'', PStr (name p)), (''description'', PStr (description p)),
      (''created_at'', PStr (datetime_isoformat (created_at p))),
      (''updated_at'', PStr (datetime_isoformat (updated_at p))),
      (''assignee'', PStr (assignee p)),
      (''parent_phase_id'', opt_str (parent_phase_id p)),
      (''start_date'', opt_date (process.start_date p)),
      (''end_date'', opt_date (process.end_date p)),
      (''estimated_hours'', opt_float (process.estimated_hours p)),
      (''actual_hours'', opt_float (process.actual_hours p)),
      (''progress'', PFloat (process.progress p)),
      (''is_progress_manual'', PBool (is_progress_manual p)),
      (''tasks'', PList (map PStr (process.tasks p))),
      (''notes'', PStr (process.notes' p)),
      (''priority'', PInt (process.priority p))]"
  by (simp add: Process_to_dict_def base_dict_def py_update_def)

lemma Process_roundtrip:
  assumes "wf_process p"
  shows "Process_from_dict uid now (Process_to_dict p) = Inr p"
proof -
  have ca: "valid_datetime (created_at p)" and ua: "valid_datetime (updated_at p)"
    and sd: "valid_opt_date (process.start_date p)" and ed: "valid_opt_date (process.end_date p)"
    using assms by (simp_all add: wf_process_def wf_base_def)
  have s: "get_opt_date (Process_to_dict p) ''start_date'' = Inr (process.start_date p)"
    by (rule get_opt_date_roundtrip [OF _ sd]) (simp add: Process_to_dict_eq)
  have e: "get_opt_date (Process_to_dict p) ''end_date'' = Inr (process.end_date p)"
    by (rule get_opt_date_roundtrip [OF _ ed]) (simp add: Process_to_dict_eq)
  show ?thesis
    unfolding Process_from_dict_def s e
    unfolding Process_to_dict_eq
    by (simp add: sum_bind_def item_str_def item_datetime_def getitem_def
        get_str_def get_opt_str_def get_int_def get_opt_float_def get_str_list_def
        get_float_def get_bool_def get_default_def as_str_def as_int_def as_float_def
        as_bool_def as_str_list_def
        datetime_roundtrip [OF ca] datetime_roundtrip [OF ua]
        str_list_roundtrip opt_roundtrips Process_init_def)
qed

lemma Phase_to_dict_eq:
  "Phase_to_dict ph =
     [(''id'', PStr (id' ph)), (''name'', PStr (name ph)), (''description'', PStr (description ph)),
      (''created_at'', PStr (datetime_isoformat (created_at ph))),
      (''updated_at'', PStr (datetime_isoformat (updated_at ph))),
      (''parent_project_id'', opt_str (parent_project_id ph)),
      (''end_date'', opt_date (phase.end_date ph)),
      (''progress'', PFloat (phase.progress ph)),
      (''processes'', PList (map PStr (processes ph))),
      (''notes'', PStr (phase.notes' ph)),
      (''priority'', PInt (phase.priority ph)),
      (''milestone'', PStr (milestone ph)),
      (''deliverables'', PList (map PStr (deliverables ph)))]"
  by (simp add: Phase_to_dict_def base_dict_def py_update_def)

lemma Phase_roundtrip:
  assumes "wf_phase ph"
  shows "Phase_from_dict uid now (Phase_to_dict ph) = Inr ph"
proof -
  have ca: "valid_datetime (created_at ph)" and ua: "valid_datetime (updated_at ph)"
    and ed: "valid_opt_date (phase.end_date ph)"
    using assms by (simp_all add: wf_phase_def wf_base_def)
  have e: "get_opt_date (Phase_to_dict ph) ''end_date'' = Inr (phase.end_date ph)"
    by (rule get_opt_date_roundtrip [OF _ ed]) (simp add: Phase_to_dict_eq)
  show ?thesis
    unfolding Phase_from_dict_def e
    unfolding Phase_to_dict_eq
    by (simp add: sum_bind_def item_str_def item_datetime_def getitem_def
        get_str_def get_opt_str_def get_int_def get_str_list_def
        get_float_def get_default_def as_str_def as_int_def as_float_def
        as_str_list_def
        datetime_roundtrip [OF ca] datetime_roundtrip [OF ua]
        str_list_roundtrip opt_roundtrips Phase_init_def)
qed

lemma Project_to_dict_eq:
  "Project_to_dict pj =
     [(''id'', PStr (id' pj)), (''name'', PStr (name pj)), (''description'', PStr (description pj)),
      (''created_at'', PStr (datetime_isoformat (created_at pj))),
      (''updated_at'', PStr (datetime_isoformat (updated_at pj))),
      (''status'', PStr (project.status pj)),
      (''is_status_manual'', PBool (is_status_manual pj)),
      (''start_date'', opt_date (project.start_date pj)),
      (''end_date'', opt_date (project.end_date pj)),
      (''progress'', PFloat (project.progress pj)),
      (''phases'', PList (map PStr (phases pj))),
      (''notes'', PStr (project.notes' pj)),
      (''priority'', PInt (project.priority pj)),
      (''budget'', opt_float (budget pj)),
      (''actual_cost'', opt_float (actual_cost pj)),
      (''manager'', PStr (manager pj)),
      (''stakeholders'', PList (map PStr (stakeholders pj))),
      (''tags'', PList (map PStr (project.tags pj))),
      (''risk_level'', PInt (risk_level pj))]"
  by (simp add: Project_to_dict_def base_dict_def py_update_def)

lemma Project_roundtrip:
  assumes "wf_project pj"
  shows "Project_from_dict uid now (Project_to_dict pj) = Inr pj"
proof -
  have ca: "valid_datetime (created_at pj)" and ua: "valid_datetime (updated_at pj)"
    and sd: "valid_opt_date (project.start_date pj)" and ed: "valid_opt_date (project.end_date pj)"
    using assms by (simp_all add: wf_project_def wf_base_def)
  have s: "get_opt_date (Project_to_dict pj) ''start_date'' = Inr (project.start_date pj)"
    by (rule get_opt_date_roundtrip [OF _ sd]) (simp add: Project_to_dict_eq)
  have e: "get_opt_date (Project_to_dict pj) ''end_date'' = Inr (project.end_date pj)"
    by (rule get_opt_date_roundtrip [OF _ ed]) (simp add: Project_to_dict_eq)
  show ?thesis
    unfolding Project_from_dict_def s e
    unfolding Project_to_dict_eq
    by (simp add: sum_bind_def item_str_def item_datetime_def getitem_def
        get_str_def get_int_def get_opt_float_def get_str_list_def
        get_float_def get_bool_def get_default_def as_str_def as_int_def as_float_def
        as_bool_def as_str_list_def
        datetime_roundtrip [OF ca] datetime_roundtrip [OF ua]
        str_list_roundtrip opt_roundtrips Project_init_def)
qed


lemma ex_now_valid: "valid_datetime ex_now"
  by (simp add: valid_datetime_def valid_date_def ex_now_def days_in_month_def)

lemma leap_day_valid: "valid_opt_date (Some \<lparr>year = 2024, month = 2, day = 29\<rparr>)"
  by (simp add: valid_opt_date_def valid_date_def days_in_month_def is_leap_def)

text \<open>
  C9.  For each of the four entity kinds (Task, Process, Phase, Project) and every entity
  \<open>e\<close> whose date and datetime attributes hold date and datetime objects,
  \<open>from_dict (to_dict e)\<close> returns \<open>e\<close> itself: every field is reproduced, including
  the timestamps, the optional dates and hours left as \<open>None\<close>, the list fields and, for
  a task, every entry of the status history.
\<close>

theorem from_dict_to_dict_roundtrip:
  "(wf_task t \<longrightarrow> Task_from_dict uid cid now (Task_to_dict t) = Inr t)
   \<and> (wf_process p \<longrightarrow> Process_from_dict uid now (Process_to_dict p) = Inr p)
   \<and> (wf_phase ph \<longrightarrow> Phase_from_dict uid now (Phase_to_dict ph) = Inr ph)
   \<and> (wf_project pj \<longrightarrow> Project_from_dict uid now (Project_to_dict pj) = Inr pj)"
  by (simp add: Task_roundtrip Process_roundtrip Phase_roundtrip Project_roundtrip)

theorem from_dict_to_dict_roundtrip_witness:
  "Task_from_dict ''u'' ''c'' ex_now (Task_to_dict (ex_task ''t1'' COMPLETED (Some ''p1''))) =
     Inr (ex_task ''t1'' COMPLETED (Some ''p1''))
   \<and> Process_from_dict ''u'' ex_now
       (Process_to_dict ((ex_process ''p1'' (Some ''f1'') [''t1''])
          \<lparr>process.end_date := Some \<lparr>year = 2024, month = 2, day = 29\<rparr>\<rparr>)) =
     Inr ((ex_process ''p1'' (Some ''f1'') [''t1''])
          \<lparr>process.end_date := Some \<lparr>year = 2024, month = 2, day = 29\<rparr>\<rparr>)
   \<and> Phase_from_dict ''u'' ex_now
       (Phase_to_dict ((ex_phase ''f1'' (Some ''j1'') [''p1''] 50)
          \<lparr>phase.end_date := Some \<lparr>year = 2024, month = 2, day = 29\<rparr>\<rparr>)) =
     Inr ((ex_phase ''f1'' (Some ''j1'') [''p1''] 50)
          \<lparr>phase.end_date := Some \<lparr>year = 2024, month = 2, day = 29\<rparr>\<rparr>)
   \<and> Project_from_dict ''u'' ex_now (Project_to_dict (ex_project ''j1'' [''f1''] False)) =
     Inr (ex_project ''j1'' [''f1''] False)"
proof -
  let ?t = "ex_task ''t1'' COMPLETED (Some ''p1'')"
  let ?p = "(ex_process ''p1'' (Some ''f1'') [''t1''])
          \<lparr>process.end_date := Some \<lparr>year = 2024, month = 2, day = 29\<rparr>\<rparr>"
  let ?ph = "(ex_phase ''f1'' (Some ''j1'') [''p1''] 50)
          \<lparr>phase.end_date := Some \<lparr>year = 2024, month = 2, day = 29\<rparr>\<rparr>"
  let ?pj = "ex_project ''j1'' [''f1''] False"
  have wt: "wf_task ?t"
    by (simp add: wf_task_def wf_base_def ex_task_def StatusChange_init_def ex_now_valid)
  have wp: "wf_process ?p"
    using leap_day_valid
    by (simp add: wf_process_def wf_base_def ex_process_def Process_init_def ex_now_valid
        valid_opt_date_def)
  have wf: "wf_phase ?ph"
    using leap_day_valid
    by (simp add: wf_phase_def wf_base_def ex_phase_def ex_now_valid)
  have wj: "wf_project ?pj"
    by (simp add: wf_project_def wf_base_def ex_project_def ex_now_valid valid_opt_date_def)
  from from_dict_to_dict_roundtrip [of ?t "''u''" "''c''" ex_now ?p ?ph ?pj] wt wp wf wj
  show ?thesis by blast
qed

end
